theory Spec2Isabelle
  imports Complex_Main
begin

section \<open>Python values, as the three servers see them\<close>

text \<open>
  The handlers work on whatever JSON value the client sent, so request bodies are values of
  a JSON datatype and every operation that Python applies to them is written out with the
  exception it raises on a value of the wrong type. Text is a \<^typ>\<open>string\<close>, one
  \<^typ>\<open>char\<close> per code point below 256. JSON numbers are reals: the handlers only test
  them for zero or pass them on.
\<close>

datatype json =
    JNull
  | JBool bool
  | JNum real
  | JStr string
  | JArr "json list"
  | JObj "(string \<times> json) list"

text \<open>An exception of the interpreter, the one \<^verbatim>\<open>raise_for_status\<close> raises for a status, or
  one raised by a library with its message.\<close>

datatype py_exn =
    TypeError
  | AttributeError
  | KeyError
  | IndexError
  | ValueError
  | HTTPError nat
  | LibraryError string

text \<open>Truth value of an object in a condition (\<^verbatim>\<open>if not data\<close>).\<close>

fun truthy :: "json \<Rightarrow> bool" where
  "truthy JNull = False"
| "truthy (JBool b) = b"
| "truthy (JNum x) = (x \<noteq> 0)"
| "truthy (JStr s) = (s \<noteq> [])"
| "truthy (JArr xs) = (xs \<noteq> [])"
| "truthy (JObj kvs) = (kvs \<noteq> [])"

text \<open>\<^verbatim>\<open>k in s\<close> on two strings: \<open>k\<close> occurs in \<open>s\<close> as a contiguous piece.\<close>

fun is_substring :: "string \<Rightarrow> string \<Rightarrow> bool" where
  "is_substring k [] = (k = [])"
| "is_substring k (c # cs) = (take (length k) (c # cs) = k \<or> is_substring k cs)"

text \<open>\<^verbatim>\<open>'key' in v\<close>: key of a dict, element of a list, piece of a string; a TypeError on
  anything that is not a container.\<close>

fun py_in :: "string \<Rightarrow> json \<Rightarrow> py_exn + bool" where
  "py_in k (JObj kvs) = Inr (map_of kvs k \<noteq> None)"
| "py_in k (JArr xs) = Inr (JStr k \<in> set xs)"
| "py_in k (JStr s) = Inr (is_substring k s)"
| "py_in k JNull = Inl TypeError"
| "py_in k (JBool b) = Inl TypeError"
| "py_in k (JNum x) = Inl TypeError"

text \<open>\<^verbatim>\<open>v['key']\<close>: only a dict can be indexed by a string.\<close>

fun py_getitem :: "json \<Rightarrow> string \<Rightarrow> py_exn + json" where
  "py_getitem (JObj kvs) k = (case map_of kvs k of None \<Rightarrow> Inl KeyError | Some v \<Rightarrow> Inr v)"
| "py_getitem v k = Inl TypeError"

text \<open>\<^verbatim>\<open>v.get('key', default)\<close>: only a dict has the method.\<close>

fun py_get :: "json \<Rightarrow> string \<Rightarrow> json \<Rightarrow> py_exn + json" where
  "py_get (JObj kvs) k d = (case map_of kvs k of None \<Rightarrow> Inr d | Some v \<Rightarrow> Inr v)"
| "py_get v k d = Inl AttributeError"

text \<open>\<^verbatim>\<open>for x in v\<close>: the elements of a list, the keys of a dict, the characters of a
  string.\<close>

fun py_iter :: "json \<Rightarrow> py_exn + json list" where
  "py_iter (JArr xs) = Inr xs"
| "py_iter (JObj kvs) = Inr (map (\<lambda>kv. JStr (fst kv)) kvs)"
| "py_iter (JStr s) = Inr (map (\<lambda>c. JStr [c]) s)"
| "py_iter v = Inl TypeError"

subsection \<open>Whitespace: \<^verbatim>\<open>str.strip()\<close> and \<^verbatim>\<open>str.split()\<close>\<close>

text \<open>\<^verbatim>\<open>str.isspace\<close> on the code points below 256: tab to carriage return, the four
  separators 28 to 31, the space, NEL and the no-break space.\<close>

definition isspace :: "char \<Rightarrow> bool" where
  "isspace c = (let n = (of_char c :: nat)
                in (9 \<le> n \<and> n \<le> 13) \<or> (28 \<le> n \<and> n \<le> 32) \<or> n = 133 \<or> n = 160)"

definition strip :: "string \<Rightarrow> string" where
  "strip s = rev (dropWhile isspace (rev (dropWhile isspace s)))"

text \<open>\<^verbatim>\<open>v.strip()\<close> on a request value: only a string has the method.\<close>

fun py_strip :: "json \<Rightarrow> py_exn + string" where
  "py_strip (JStr s) = Inr (strip s)"
| "py_strip v = Inl AttributeError"

text \<open>\<^verbatim>\<open>s.split()\<close> scans once: \<open>w\<close> is the word being read.\<close>

fun split_from :: "string \<Rightarrow> string \<Rightarrow> string list" where
  "split_from w [] = (if w = [] then [] else [w])"
| "split_from w (c # cs) =
     (if isspace c then (if w = [] then split_from [] cs else w # split_from [] cs)
      else split_from (w @ [c]) cs)"

definition split :: "string \<Rightarrow> string list" where
  "split s = split_from [] s"

section \<open>The chat server (\<^verbatim>\<open>chat_server.py\<close>)\<close>

text \<open>
  What the handler cannot decide by itself comes from the environment: the answer of the
  Ollama tag listing, the answer of the generate call, the configured model name, and
  Python's \<^verbatim>\<open>str()\<close> of a content that is not text (used inside the f-strings).
\<close>

record ollama_request =
  rq_model :: string
  rq_prompt :: string
  rq_stream :: bool
  rq_temperature :: json
  rq_max_tokens :: json

record ollama_reply =
  status_code :: nat
  reply_text :: string
  reply_json :: "py_exn + json"

record chat_env =
  OLLAMA_MODEL :: string
  tags_get :: "py_exn + nat"
  generate_post :: "ollama_request \<Rightarrow> py_exn + ollama_reply"
  py_str :: "json \<Rightarrow> string"

record completion =
  choice_role :: string
  choice_content :: string
  finish_reason :: string
  completion_model :: string
  prompt_tokens :: nat
  completion_tokens :: nat
  total_tokens :: nat

datatype chat_body =
    ErrorBody string
  | OllamaErrorBody string
  | ExceptionBody py_exn
  | CompletionBody completion

type_synonym chat_response = "nat \<times> chat_body"

definition check_ollama_running :: "chat_env \<Rightarrow> bool" where
  "check_ollama_running env = (case tags_get env of Inl e \<Rightarrow> False | Inr code \<Rightarrow> code = 200)"

text \<open>An f-string slot: text goes in as it is, anything else through \<^verbatim>\<open>str()\<close>.\<close>

definition format_value :: "chat_env \<Rightarrow> json \<Rightarrow> string" where
  "format_value env v = (case v of JStr s \<Rightarrow> s | _ \<Rightarrow> py_str env v)"

text \<open>One pass of the loop body: what the message adds to the prompt.\<close>

definition message_line :: "chat_env \<Rightarrow> json \<Rightarrow> py_exn + string" where
  "message_line env message =
     (case py_get message ''role'' (JStr ''user'') of
        Inl e \<Rightarrow> Inl e
      | Inr role \<Rightarrow>
          (case py_get message ''content'' (JStr '''') of
             Inl e \<Rightarrow> Inl e
           | Inr content \<Rightarrow>
               if role = JStr ''system''
                 then Inr (''System: '' @ format_value env content @ [CHR 0x0A])
               else if role = JStr ''user''
                 then Inr (''Human: '' @ format_value env content @ [CHR 0x0A])
               else if role = JStr ''assistant''
                 then Inr (''Assistant: '' @ format_value env content @ [CHR 0x0A])
               else Inr []))"

text \<open>The loop \<^verbatim>\<open>for message in messages\<close>, from the prompt built so far.\<close>

fun add_messages :: "chat_env \<Rightarrow> string \<Rightarrow> json list \<Rightarrow> py_exn + string" where
  "add_messages env prompt [] = Inr prompt"
| "add_messages env prompt (m # ms) =
     (case message_line env m of
        Inl e \<Rightarrow> Inl e
      | Inr line \<Rightarrow> add_messages env (prompt @ line) ms)"

definition flatten_prompt :: "chat_env \<Rightarrow> json \<Rightarrow> py_exn + string" where
  "flatten_prompt env messages =
     (case py_iter messages of
        Inl e \<Rightarrow> Inl e
      | Inr ms \<Rightarrow>
          (case add_messages env [] ms of
             Inl e \<Rightarrow> Inl e
           | Inr prompt \<Rightarrow> Inr (prompt @ ''Assistant: '')))"

text \<open>The request sent to \<^verbatim>\<open>/api/generate\<close>; \<open>data\<close> is a dict here, as
  \<^verbatim>\<open>data.get('messages', [])\<close> has succeeded before.\<close>

definition ollama_request_of :: "chat_env \<Rightarrow> json \<Rightarrow> string \<Rightarrow> py_exn + ollama_request" where
  "ollama_request_of env data prompt =
     (case py_get data ''temperature'' (JNum 0.3) of
        Inl e \<Rightarrow> Inl e
      | Inr temperature \<Rightarrow>
          (case py_get data ''max_tokens'' (JNum 500) of
             Inl e \<Rightarrow> Inl e
           | Inr max_tokens \<Rightarrow>
               Inr \<lparr>rq_model = OLLAMA_MODEL env, rq_prompt = prompt, rq_stream = False,
                    rq_temperature = temperature, rq_max_tokens = max_tokens\<rparr>))"

text \<open>From the reply of the generate call to the response.\<close>

definition format_reply :: "chat_env \<Rightarrow> string \<Rightarrow> ollama_reply \<Rightarrow> chat_response" where
  "format_reply env prompt response =
     (if status_code response \<noteq> 200
        then (500, OllamaErrorBody (''Ollama API error: '' @ reply_text response))
      else
        (case reply_json response of
           Inl e \<Rightarrow> (500, ExceptionBody e)
         | Inr ollama_response \<Rightarrow>
             (case py_get ollama_response ''response'' (JStr '''') of
                Inl e \<Rightarrow> (500, ExceptionBody e)
              | Inr (JStr generated_text) \<Rightarrow>
                  (200, CompletionBody
                     \<lparr>choice_role = ''assistant'',
                      choice_content = generated_text,
                      finish_reason = ''stop'',
                      completion_model = OLLAMA_MODEL env,
                      prompt_tokens = length (split prompt),
                      completion_tokens = length (split generated_text),
                      total_tokens = length (split prompt) + length (split generated_text)\<rparr>)
              | Inr other \<Rightarrow> (500, ExceptionBody AttributeError))))"

text \<open>The second half of the handler: the call of the generation runtime with the prompt
  and the response made from its answer.\<close>

definition call_ollama :: "chat_env \<Rightarrow> json \<Rightarrow> string \<Rightarrow> chat_response" where
  "call_ollama env data prompt =
     (case ollama_request_of env data prompt of
        Inl e \<Rightarrow> (500, ExceptionBody e)
      | Inr ollama_request \<Rightarrow>
          (case generate_post env ollama_request of
             Inl e \<Rightarrow> (500, ExceptionBody e)
           | Inr response \<Rightarrow> format_reply env prompt response))"

text \<open>The handler of \<^verbatim>\<open>POST /chat/completions\<close>; its argument \<open>get_json\<close> is what
  \<^verbatim>\<open>request.get_json()\<close> gives, an exception when the body does not parse.\<close>

definition chat_completions :: "chat_env \<Rightarrow> (py_exn + json) \<Rightarrow> chat_response" where
  "chat_completions env get_json =
     (if \<not> check_ollama_running env
        then (500, ErrorBody ''Ollama is not running. Please start Ollama first.'')
      else
        (case get_json of
           Inl e \<Rightarrow> (500, ExceptionBody e)
         | Inr data \<Rightarrow>
             if \<not> truthy data then (400, ErrorBody ''No data provided'')
             else
               (case py_get data ''messages'' (JArr []) of
                  Inl e \<Rightarrow> (500, ExceptionBody e)
                | Inr messages \<Rightarrow>
                    if \<not> truthy messages then (400, ErrorBody ''No messages provided'')
                    else
                      (case flatten_prompt env messages of
                         Inl e \<Rightarrow> (500, ExceptionBody e)
                       | Inr prompt \<Rightarrow> call_ollama env data prompt))))"

subsection \<open>The chat data model of the specification\<close>

text \<open>
  A well-formed chat message has one of three roles and a text. These definitions follow
  the specification's wording, not the code: the prompt is one labelled line for each
  message, in order, and the cue at the end; the token counts are numbers of
  whitespace-separated words, a word starting at each character that is not whitespace and
  follows whitespace or the start of the text.
\<close>

datatype role = System | User | Assistant

fun role_name :: "role \<Rightarrow> string" where
  "role_name System = ''system''"
| "role_name User = ''user''"
| "role_name Assistant = ''assistant''"

fun role_label :: "role \<Rightarrow> string" where
  "role_label System = ''System: ''"
| "role_label User = ''Human: ''"
| "role_label Assistant = ''Assistant: ''"

definition spec_line :: "role \<times> string \<Rightarrow> string" where
  "spec_line m = role_label (fst m) @ snd m @ [CHR 0x0A]"

definition spec_prompt :: "(role \<times> string) list \<Rightarrow> string" where
  "spec_prompt ms = concat (map spec_line ms) @ ''Assistant: ''"

text \<open>The JSON value \<open>j\<close> is the message with role \<open>r\<close> and text \<open>c\<close>: an object whose keys
  \<^verbatim>\<open>role\<close> and \<^verbatim>\<open>content\<close> hold them (it may have other keys).\<close>

fun is_message :: "json \<Rightarrow> role \<times> string \<Rightarrow> bool" where
  "is_message (JObj kvs) m =
     (map_of kvs ''role'' = Some (JStr (role_name (fst m))) \<and>
      map_of kvs ''content'' = Some (JStr (snd m)))"
| "is_message j m = False"

definition word_count :: "string \<Rightarrow> nat" where
  "word_count s =
     length (filter (\<lambda>pc. isspace (fst pc) \<and> \<not> isspace (snd pc)) (zip (CHR '' '' # s) s))"

section \<open>The embedding server (\<^verbatim>\<open>embedding_server.py\<close>)\<close>

text \<open>
  The loaded sentence-embedding model is the global \<^verbatim>\<open>embedding_model\<close>: absent, or an
  encoder that takes the list of texts and gives one vector for each or raises. The
  components of a vector are reals, in place of the 32-bit floats of the library: rounding,
  overflow and underflow are not represented. The model fixes which operations the handler
  applies to which vectors, not the floating-point value that comes out.
\<close>

type_synonym vector = "real list"

record embedding_env =
  MODEL_NAME :: string
  embedding_model :: "(string list \<Rightarrow> py_exn + vector list) option"

text \<open>A quotient of floats: \<open>0 / 0\<close> is not a number.\<close>

datatype np_float = Finite real | NaN

record batch_result =
  b_embeddings :: "vector list"
  b_count :: nat
  b_dimensions :: nat
  b_model :: string

record similarity_result =
  s_similarity :: np_float
  s_model :: string

datatype embedding_body =
    EmbErrorBody string
  | EmbFailureBody py_exn
  | BatchBody batch_result
  | SimilarityBody similarity_result

type_synonym embedding_response = "nat \<times> embedding_body"

text \<open>The comprehension \<^verbatim>\<open>[text for text in texts if text and text.strip()]\<close>: a falsy
  entry is dropped before \<^verbatim>\<open>strip\<close> is called, a truthy one that is not text raises.\<close>

fun valid_texts :: "json list \<Rightarrow> py_exn + string list" where
  "valid_texts [] = Inr []"
| "valid_texts (t # ts) =
     (if \<not> truthy t then valid_texts ts
      else
        (case t of
           JStr s \<Rightarrow>
             (if strip s \<noteq> []
                then (case valid_texts ts of Inl e \<Rightarrow> Inl e | Inr vs \<Rightarrow> Inr (s # vs))
              else valid_texts ts)
         | _ \<Rightarrow> Inl AttributeError))"

definition create_batch_embeddings :: "embedding_env \<Rightarrow> (py_exn + json) \<Rightarrow> embedding_response" where
  "create_batch_embeddings env get_json =
     (case embedding_model env of
        None \<Rightarrow> (500, EmbErrorBody ''Embedding model not loaded'')
      | Some encode \<Rightarrow>
          (case get_json of
             Inl e \<Rightarrow> (500, EmbFailureBody e)
           | Inr data \<Rightarrow>
               if \<not> truthy data then (400, EmbErrorBody ''No texts provided'')
               else
                 (case py_in ''texts'' data of
                    Inl e \<Rightarrow> (500, EmbFailureBody e)
                  | Inr False \<Rightarrow> (400, EmbErrorBody ''No texts provided'')
                  | Inr True \<Rightarrow>
                      (case py_getitem data ''texts'' of
                         Inl e \<Rightarrow> (500, EmbFailureBody e)
                       | Inr (JArr texts) \<Rightarrow>
                           if length texts = 0 then (400, EmbErrorBody ''Invalid texts array'')
                           else
                             (case valid_texts texts of
                                Inl e \<Rightarrow> (500, EmbFailureBody e)
                              | Inr valid \<Rightarrow>
                                  if length valid = 0
                                    then (400, EmbErrorBody ''No valid texts provided'')
                                  else
                                    (case encode valid of
                                       Inl e \<Rightarrow> (500, EmbFailureBody e)
                                     | Inr embeddings_list \<Rightarrow>
                                         (200, BatchBody
                                            \<lparr>b_embeddings = embeddings_list,
                                             b_count = length embeddings_list,
                                             b_dimensions =
                                               (case embeddings_list of
                                                  [] \<Rightarrow> 0
                                                | emb # rest \<Rightarrow> length emb),
                                             b_model = MODEL_NAME env\<rparr>)))
                       | Inr other \<Rightarrow> (400, EmbErrorBody ''Invalid texts array'')))))"

text \<open>\<^verbatim>\<open>np.dot\<close> of two vectors (a ValueError when the shapes differ) and
  \<^verbatim>\<open>np.linalg.norm\<close>, as exact sums over the reals: what the library rounds, or lets
  overflow to infinity, is not in these definitions.\<close>

definition np_dot :: "vector \<Rightarrow> vector \<Rightarrow> py_exn + real" where
  "np_dot a b =
     (if length a \<noteq> length b then Inl ValueError
      else Inr (sum_list (map (\<lambda>xy. fst xy * snd xy) (zip a b))))"

definition np_norm :: "vector \<Rightarrow> real" where
  "np_norm a = sqrt (sum_list (map (\<lambda>x. \<bar>x\<bar> ^ 2) a))"

definition np_divide :: "real \<Rightarrow> real \<Rightarrow> np_float" where
  "np_divide x y = (if y = 0 then NaN else Finite (x / y))"

text \<open>\<^verbatim>\<open>embeddings[i]\<close> on the rows the encoder gave.\<close>

definition row :: "vector list \<Rightarrow> nat \<Rightarrow> py_exn + vector" where
  "row embeddings i = (if i < length embeddings then Inr (embeddings ! i) else Inl IndexError)"

definition cosine :: "vector list \<Rightarrow> py_exn + np_float" where
  "cosine embeddings =
     (case row embeddings 0 of
        Inl e \<Rightarrow> Inl e
      | Inr e0 \<Rightarrow>
          (case row embeddings 1 of
             Inl e \<Rightarrow> Inl e
           | Inr e1 \<Rightarrow>
               (case np_dot e0 e1 of
                  Inl e \<Rightarrow> Inl e
                | Inr d \<Rightarrow> Inr (np_divide d (np_norm e0 * np_norm e1)))))"

definition compute_similarity :: "embedding_env \<Rightarrow> (py_exn + json) \<Rightarrow> embedding_response" where
  "compute_similarity env get_json =
     (case embedding_model env of
        None \<Rightarrow> (500, EmbErrorBody ''Embedding model not loaded'')
      | Some encode \<Rightarrow>
          (case get_json of
             Inl e \<Rightarrow> (500, EmbFailureBody e)
           | Inr data \<Rightarrow>
               if \<not> truthy data then (400, EmbErrorBody ''Both text1 and text2 required'')
               else
                 (case py_in ''text1'' data of
                    Inl e \<Rightarrow> (500, EmbFailureBody e)
                  | Inr False \<Rightarrow> (400, EmbErrorBody ''Both text1 and text2 required'')
                  | Inr True \<Rightarrow>
                 (case py_in ''text2'' data of
                    Inl e \<Rightarrow> (500, EmbFailureBody e)
                  | Inr False \<Rightarrow> (400, EmbErrorBody ''Both text1 and text2 required'')
                  | Inr True \<Rightarrow>
                 (case py_getitem data ''text1'' of
                    Inl e \<Rightarrow> (500, EmbFailureBody e)
                  | Inr text1 \<Rightarrow>
                 (case py_getitem data ''text2'' of
                    Inl e \<Rightarrow> (500, EmbFailureBody e)
                  | Inr text2 \<Rightarrow>
                 (case py_strip text1 of
                    Inl e \<Rightarrow> (500, EmbFailureBody e)
                  | Inr stripped1 \<Rightarrow>
                      if stripped1 = [] then (400, EmbErrorBody ''Empty texts provided'')
                      else
                 (case py_strip text2 of
                    Inl e \<Rightarrow> (500, EmbFailureBody e)
                  | Inr stripped2 \<Rightarrow>
                      if stripped2 = [] then (400, EmbErrorBody ''Empty texts provided'')
                      else
                 (case (text1, text2) of
                    (JStr t1, JStr t2) \<Rightarrow>
                      (case encode [t1, t2] of
                         Inl e \<Rightarrow> (500, EmbFailureBody e)
                       | Inr embeddings \<Rightarrow>
                           (case cosine embeddings of
                              Inl e \<Rightarrow> (500, EmbFailureBody e)
                            | Inr similarity \<Rightarrow>
                                (200, SimilarityBody
                                   \<lparr>s_similarity = similarity, s_model = MODEL_NAME env\<rparr>)))
                  | other \<Rightarrow> (500, EmbFailureBody AttributeError))))))))))"

subsection \<open>Empty and whitespace-only texts\<close>

text \<open>The specification's "empty or whitespace-only": every character is whitespace.\<close>

definition blank :: "string \<Rightarrow> bool" where
  "blank t = list_all isspace t"

text \<open>The cosine similarity of the specification: the dot product over the product of the
  Euclidean norms, by components.\<close>

definition dot_product :: "vector \<Rightarrow> vector \<Rightarrow> real" where
  "dot_product a b = (\<Sum>i<length a. a ! i * b ! i)"

definition euclidean_norm :: "vector \<Rightarrow> real" where
  "euclidean_norm a = sqrt (\<Sum>i<length a. (a ! i)\<^sup>2)"

section \<open>The transcription server (\<^verbatim>\<open>whisper_server.py\<close>)\<close>

text \<open>
  The handler creates, writes and deletes temporary files and writes to the log, so it runs
  on a state: the files that exist, with their contents, and the log. The environment
  holds what the outside decides: the loaded model, which reads the file it is given (its
  contents, or nothing when the file is absent), the path that
  \<^verbatim>\<open>NamedTemporaryFile\<close> picks, the answer to the HTTP fetch, and whether
  \<^verbatim>\<open>os.unlink\<close> fails on a path.
\<close>

record segment =
  seg_text :: string
  seg_start :: real
  seg_end :: real

record whisper_result =
  res_text :: string
  res_segments :: "segment list option"
  res_language :: "string option"

record transcription =
  tr_text :: string
  tr_language :: string
  tr_segments :: "segment list"

text \<open>The streamed answer to \<^verbatim>\<open>requests.get\<close>: the chunks that arrive, and the exception
  that ends the stream early, if any.\<close>

record http_response =
  http_status :: nat
  http_chunks :: "string list"
  http_failure :: "py_exn option"

record whisper_env =
  whisper_model :: "(string option \<Rightarrow> py_exn + whisper_result) option"
  new_temp_file :: "py_exn + string"
  http_get :: "json \<Rightarrow> py_exn + http_response"
  unlink_error :: "string \<Rightarrow> py_exn option"

datatype log_event =
    DownloadingFrom json
  | DownloadedTo string
  | DownloadFailed py_exn
  | TranscribingFile string
  | TranscriptionCompleted nat
  | TranscriptionFailed py_exn
  | RequestFailed py_exn

record whisper_state =
  files :: "string \<rightharpoonup> string"
  logs :: "log_event list"

text \<open>The request: the uploaded files by field name (what \<^verbatim>\<open>save\<close> writes, or the
  exception it raises), whether the content type is JSON, and what
  \<^verbatim>\<open>request.json\<close> gives.\<close>

record whisper_request =
  req_files :: "string \<rightharpoonup> (py_exn + string)"
  is_json :: bool
  req_json :: "py_exn + json"

datatype whisper_body =
    WErrorBody string
  | WFailureBody py_exn
  | WSuccessBody transcription

type_synonym whisper_response = "nat \<times> whisper_body"

definition logged :: "log_event \<Rightarrow> whisper_state \<Rightarrow> whisper_state" where
  "logged ev st = st\<lparr>logs := logs st @ [ev]\<rparr>"

text \<open>\<^verbatim>\<open>tempfile.NamedTemporaryFile(delete=False, suffix='.mp3')\<close>: a new, empty file.\<close>

definition named_temporary_file :: "whisper_env \<Rightarrow> whisper_state \<Rightarrow> (py_exn + string) \<times> whisper_state" where
  "named_temporary_file env st =
     (case new_temp_file env of
        Inl e \<Rightarrow> (Inl e, st)
      | Inr name \<Rightarrow> (Inr name, st\<lparr>files := (files st)(name \<mapsto> [])\<rparr>))"

text \<open>\<^verbatim>\<open>response.raise_for_status()\<close> of the HTTP library: it raises on the client-error and
  server-error statuses.\<close>

definition raise_for_status :: "http_response \<Rightarrow> py_exn + unit" where
  "raise_for_status response =
     (if 400 \<le> http_status response \<and> http_status response < 600
        then Inl (HTTPError (http_status response))
      else Inr ())"

definition download_audio_file :: "whisper_env \<Rightarrow> json \<Rightarrow> whisper_state \<Rightarrow> (py_exn + string) \<times> whisper_state" where
  "download_audio_file env url st =
     (let st1 = logged (DownloadingFrom url) st in
      case http_get env url of
        Inl e \<Rightarrow> (Inl e, logged (DownloadFailed e) st1)
      | Inr response \<Rightarrow>
          (case raise_for_status response of
             Inl e \<Rightarrow> (Inl e, logged (DownloadFailed e) st1)
           | Inr u \<Rightarrow>
               (case named_temporary_file env st1 of
                  (Inl e, st2) \<Rightarrow> (Inl e, logged (DownloadFailed e) st2)
                | (Inr temp_path, st2) \<Rightarrow>
                    (let st3 = st2\<lparr>files := (files st2)(temp_path \<mapsto> concat (http_chunks response))\<rparr> in
                     case http_failure response of
                       Some e \<Rightarrow> (Inl e, logged (DownloadFailed e) st3)
                     | None \<Rightarrow> (Inr temp_path, logged (DownloadedTo temp_path) st3)))))"

text \<open>The segments of the result: those of the model with their text stripped, or the one
  fallback segment when the result has no key \<^verbatim>\<open>segments\<close>.\<close>

definition format_segments :: "whisper_result \<Rightarrow> segment list" where
  "format_segments result =
     (case res_segments result of
        Some segs \<Rightarrow>
          map (\<lambda>segment. \<lparr>seg_text = strip (seg_text segment),
                           seg_start = seg_start segment,
                           seg_end = seg_end segment\<rparr>) segs
      | None \<Rightarrow> [\<lparr>seg_text = strip (res_text result), seg_start = 0.0, seg_end = 0.0\<rparr>])"

definition transcribe_audio_file :: "whisper_env \<Rightarrow> string \<Rightarrow> whisper_state \<Rightarrow> (py_exn + transcription) \<times> whisper_state" where
  "transcribe_audio_file env file_path st =
     (let st1 = logged (TranscribingFile file_path) st in
      case whisper_model env of
        None \<Rightarrow> (Inl AttributeError, logged (TranscriptionFailed AttributeError) st1)
      | Some model \<Rightarrow>
          (case model (files st1 file_path) of
             Inl e \<Rightarrow> (Inl e, logged (TranscriptionFailed e) st1)
           | Inr result \<Rightarrow>
               (let segments = format_segments result in
                (Inr \<lparr>tr_text = res_text result,
                      tr_language = (case res_language result of None \<Rightarrow> ''unknown'' | Some l \<Rightarrow> l),
                      tr_segments = segments\<rparr>,
                 logged (TranscriptionCompleted (length segments)) st1))))"

text \<open>The clean-up both paths run:
  \<^verbatim>\<open>if temp_file_path and os.path.exists(temp_file_path): os.unlink(temp_file_path)\<close>.\<close>

definition cleanup :: "whisper_env \<Rightarrow> string option \<Rightarrow> whisper_state \<Rightarrow> (py_exn + unit) \<times> whisper_state" where
  "cleanup env temp_file_path st =
     (case temp_file_path of
        None \<Rightarrow> (Inr (), st)
      | Some p \<Rightarrow>
          if p \<noteq> [] \<and> files st p \<noteq> None
            then (case unlink_error env p of
                    Some e \<Rightarrow> (Inl e, st)
                  | None \<Rightarrow> (Inr (), st\<lparr>files := (files st)(p := None)\<rparr>))
          else (Inr (), st))"

text \<open>The handler from the model check on, once \<^verbatim>\<open>temp_file_path\<close> is set. With the
  result or the exception it gives the value of \<^verbatim>\<open>temp_file_path\<close>, which the
  \<^verbatim>\<open>except\<close> block reads.\<close>

definition transcribe_source :: "whisper_env \<Rightarrow> string \<Rightarrow> whisper_state \<Rightarrow> (py_exn + whisper_response) \<times> string option \<times> whisper_state" where
  "transcribe_source env temp_file_path st =
     (if whisper_model env = None
        then (Inr (500, WErrorBody ''Whisper model not loaded''), Some temp_file_path, st)
      else
        (case transcribe_audio_file env temp_file_path st of
           (Inl e, st1) \<Rightarrow> (Inl e, Some temp_file_path, st1)
         | (Inr result, st1) \<Rightarrow>
             (case cleanup env (Some temp_file_path) st1 of
                (Inl e, st2) \<Rightarrow> (Inl e, Some temp_file_path, st2)
              | (Inr u, st2) \<Rightarrow> (Inr (200, WSuccessBody result), Some temp_file_path, st2))))"

text \<open>The \<^verbatim>\<open>try\<close> block of the handler.\<close>

definition transcribe_try :: "whisper_env \<Rightarrow> whisper_request \<Rightarrow> whisper_state \<Rightarrow> (py_exn + whisper_response) \<times> string option \<times> whisper_state" where
  "transcribe_try env request st =
     (case req_files request ''audio_file'' of
        Some uploaded_file \<Rightarrow>
          (case named_temporary_file env st of
             (Inl e, st1) \<Rightarrow> (Inl e, None, st1)
           | (Inr name, st1) \<Rightarrow>
               (case uploaded_file of
                  Inl e \<Rightarrow> (Inl e, None, st1)
                | Inr content \<Rightarrow>
                    transcribe_source env name (st1\<lparr>files := (files st1)(name \<mapsto> content)\<rparr>)))
      | None \<Rightarrow>
          if \<not> is_json request
            then (Inr (400, WErrorBody ''No audio_url or audio_file provided''), None, st)
          else
            (case req_json request of
               Inl e \<Rightarrow> (Inl e, None, st)
             | Inr body \<Rightarrow>
                 if \<not> truthy body
                   then (Inr (400, WErrorBody ''No audio_url or audio_file provided''), None, st)
                 else
                   (case py_in ''audio_url'' body of
                      Inl e \<Rightarrow> (Inl e, None, st)
                    | Inr False \<Rightarrow>
                        (Inr (400, WErrorBody ''No audio_url or audio_file provided''), None, st)
                    | Inr True \<Rightarrow>
                        (case py_getitem body ''audio_url'' of
                           Inl e \<Rightarrow> (Inl e, None, st)
                         | Inr audio_url \<Rightarrow>
                             (case download_audio_file env audio_url st of
                                (Inl e, st1) \<Rightarrow> (Inl e, None, st1)
                              | (Inr temp_file_path, st1) \<Rightarrow>
                                  transcribe_source env temp_file_path st1)))))"

text \<open>The handler of \<^verbatim>\<open>POST /transcribe\<close>. \<open>Inl\<close> is an exception that leaves the
  handler: the \<^verbatim>\<open>except\<close> block itself calls \<^verbatim>\<open>os.unlink\<close>.\<close>

definition transcribe :: "whisper_env \<Rightarrow> whisper_request \<Rightarrow> whisper_state \<Rightarrow> (py_exn + whisper_response) \<times> whisper_state" where
  "transcribe env request st =
     (case transcribe_try env request st of
        (Inr response, temp_file_path, st1) \<Rightarrow> (Inr response, st1)
      | (Inl e, temp_file_path, st1) \<Rightarrow>
          (case cleanup env temp_file_path st1 of
             (Inl e2, st2) \<Rightarrow> (Inl e2, st2)
           | (Inr u, st2) \<Rightarrow> (Inr (500, WFailureBody e), logged (RequestFailed e) st2)))"

section \<open>Example environments and requests\<close>

text \<open>Concrete inputs on which the theorems below are instantiated.\<close>

definition example_chat_env :: chat_env where
  "example_chat_env =
     \<lparr>OLLAMA_MODEL = ''llama2:7b'', tags_get = Inr 200,
      generate_post = (\<lambda>rq. Inr \<lparr>status_code = 200, reply_text = [],
                                  reply_json = Inr (JObj [(''response'', JStr ''Hello there'')])\<rparr>),
      py_str = (\<lambda>v. [])\<rparr>"

definition example_messages :: "json list" where
  "example_messages =
     [JObj [(''role'', JStr ''system''), (''content'', JStr ''Be brief'')],
      JObj [(''role'', JStr ''user''), (''content'', JStr ''hi'')]]"

definition example_completion :: completion where
  "example_completion =
     \<lparr>choice_role = ''assistant'', choice_content = ''Hello there'',
      finish_reason = ''stop'', completion_model = ''llama2:7b'',
      prompt_tokens = 6, completion_tokens = 2, total_tokens = 8\<rparr>"

definition example_embedding_env :: embedding_env where
  "example_embedding_env =
     \<lparr>MODEL_NAME = ''all-MiniLM-L6-v2'',
      embedding_model = Some (\<lambda>ts. Inr (map (\<lambda>t. [real (length t), 1]) ts))\<rparr>"

definition example_whisper_env :: whisper_env where
  "example_whisper_env =
     \<lparr>whisper_model =
        Some (\<lambda>audio. case audio of
                None \<Rightarrow> Inl (LibraryError ''No such file'')
              | Some bytes \<Rightarrow>
                  Inr \<lparr>res_text = '' hello world'', res_segments = None,
                       res_language = Some ''en''\<rparr>),
      new_temp_file = Inr ''/tmp/tmp1.mp3'',
      http_get = (\<lambda>url. Inr \<lparr>http_status = 404, http_chunks = [], http_failure = None\<rparr>),
      unlink_error = (\<lambda>p. None)\<rparr>"

definition example_state :: whisper_state where
  "example_state = \<lparr>files = Map.empty, logs = []\<rparr>"

definition example_upload :: whisper_request where
  "example_upload =
     \<lparr>req_files = [''audio_file'' \<mapsto> Inr ''RIFF''], is_json = False, req_json = Inr JNull\<rparr>"

definition example_url_request :: whisper_request where
  "example_url_request =
     \<lparr>req_files = Map.empty, is_json = True,
      req_json = Inr (JObj [(''audio_url'', JStr ''http://host/a.mp3'')])\<rparr>"

definition example_transcription :: transcription where
  "example_transcription =
     \<lparr>tr_text = '' hello world'', tr_language = ''en'',
      tr_segments = [\<lparr>seg_text = ''hello world'', seg_start = 0, seg_end = 0\<rparr>]\<rparr>"

section \<open>Verification of the chat server\<close>

subsection \<open>Whitespace splitting counts words\<close>

lemma isspace_space: "isspace (CHR '' '')" by (simp add: isspace_def)

text \<open>The words of \<^verbatim>\<open>split\<close> are the maximal runs of characters that are not whitespace.\<close>

lemma concat_split_from:
  "concat (split_from w s) = w @ filter (\<lambda>c. \<not> isspace c) s"
  by (induction s arbitrary: w) auto

lemma split_from_words:
  "\<forall>c \<in> set w. \<not> isspace c \<Longrightarrow>
   \<forall>word \<in> set (split_from w s). word \<noteq> [] \<and> (\<forall>c \<in> set word. \<not> isspace c)"
proof (induction s arbitrary: w)
  case Nil
  then show ?case by simp
next
  case (Cons a s)
  show ?case
  proof (cases "isspace a")
    case True
    have "\<forall>word \<in> set (split_from [] s). word \<noteq> [] \<and> (\<forall>c \<in> set word. \<not> isspace c)"
      by (rule Cons.IH) simp
    with True Cons.prems show ?thesis by simp
  next
    case False
    with Cons.prems have "\<forall>c \<in> set (w @ [a]). \<not> isspace c" by simp
    then have "\<forall>word \<in> set (split_from (w @ [a]) s). word \<noteq> [] \<and> (\<forall>c \<in> set word. \<not> isspace c)"
      by (rule Cons.IH)
    with False show ?thesis by simp
  qed
qed

lemma split_words:
  "concat (split s) = filter (\<lambda>c. \<not> isspace c) s \<and>
   (\<forall>word \<in> set (split s). word \<noteq> [] \<and> (\<forall>c \<in> set word. \<not> isspace c))"
  using concat_split_from [of "[]" s] split_from_words [of "[]" s] by (simp add: split_def)

text \<open>Their number is the number of word starts.\<close>

lemma length_split_from:
  "(isspace p \<longleftrightarrow> w = []) \<Longrightarrow>
   length (split_from w s) =
     (if w = [] then 0 else 1) +
     length (filter (\<lambda>pc. isspace (fst pc) \<and> \<not> isspace (snd pc)) (zip (p # s) s))"
proof (induction s arbitrary: w p)
  case Nil
  then show ?case by simp
next
  case (Cons c cs)
  show ?case
  proof (cases "isspace c")
    case True
    have "length (split_from [] cs) =
      length (filter (\<lambda>pc. isspace (fst pc) \<and> \<not> isspace (snd pc)) (zip (c # cs) cs))"
      using Cons.IH [of c "[]"] True by simp
    with True show ?thesis by simp
  next
    case False
    have "length (split_from (w @ [c]) cs) =
      1 + length (filter (\<lambda>pc. isspace (fst pc) \<and> \<not> isspace (snd pc)) (zip (c # cs) cs))"
      using Cons.IH [of c "w @ [c]"] False by simp
    with False Cons.prems show ?thesis by simp
  qed
qed

lemma length_split: "length (split s) = word_count s"
  using length_split_from [of "CHR '' ''" "[]" s]
  by (simp add: split_def word_count_def isspace_space)

lemma message_line_well_formed:
  "is_message j m \<Longrightarrow> message_line env j = Inr (spec_line m)"
  by (cases j; cases m; cases "fst m") (auto simp: message_line_def spec_line_def format_value_def)

lemma add_messages_well_formed:
  "list_all2 is_message js ms \<Longrightarrow>
   add_messages env prompt js = Inr (prompt @ concat (map spec_line ms))"
proof (induction js arbitrary: ms prompt)
  case Nil
  then show ?case by simp
next
  case (Cons j js)
  then obtain m ms' where ms: "ms = m # ms'" "is_message j m" "list_all2 is_message js ms'"
    by (auto simp: list_all2_Cons1)
  show ?case
    using Cons.IH [OF ms(3)] ms(1,2) by (simp add: message_line_well_formed)
qed


lemma chat_completions_messages:
  assumes "check_ollama_running env"
    and "map_of kvs ''messages'' = Some (JArr js)" and "js \<noteq> []"
  shows "chat_completions env (Inr (JObj kvs)) =
     (case flatten_prompt env (JArr js) of
        Inl e \<Rightarrow> (500, ExceptionBody e)
      | Inr prompt \<Rightarrow> call_ollama env (JObj kvs) prompt)"
proof -
  from assms(2) have "kvs \<noteq> []" by auto
  with assms show ?thesis by (simp add: chat_completions_def)
qed

text \<open>
  Claim C2. For a non-empty array of well-formed messages (each a JSON object whose role is
  system, user or assistant and whose content is a text), accepted by
  \<^verbatim>\<open>POST /chat/completions\<close> while the runtime answers its probe, the flattened prompt
  is the concatenation, in input order, of one line for each message, made of the label of
  its role (\<^verbatim>\<open>System: \<close>, \<^verbatim>\<open>Human: \<close>, \<^verbatim>\<open>Assistant: \<close>), the content and a newline,
  followed by the cue \<^verbatim>\<open>Assistant: \<close>; this is the prompt the handler hands to the
  generation call.
\<close>

theorem chat_prompt_well_formed:
  assumes "list_all2 is_message js ms" and "js \<noteq> []"
    and "check_ollama_running env" and "map_of kvs ''messages'' = Some (JArr js)"
  shows "flatten_prompt env (JArr js) = Inr (spec_prompt ms) \<and>
         chat_completions env (Inr (JObj kvs)) = call_ollama env (JObj kvs) (spec_prompt ms) \<and>
         (\<exists>rq. ollama_request_of env (JObj kvs) (spec_prompt ms) = Inr rq \<and>
               rq_prompt rq = spec_prompt ms)"
proof -
  have flat: "flatten_prompt env (JArr js) = Inr (spec_prompt ms)"
    using add_messages_well_formed [OF assms(1), of env "[]"]
    by (simp add: flatten_prompt_def spec_prompt_def)
  moreover have "chat_completions env (Inr (JObj kvs)) = call_ollama env (JObj kvs) (spec_prompt ms)"
    using chat_completions_messages [OF assms(3,4,2)] flat by simp
  moreover have "\<exists>rq. ollama_request_of env (JObj kvs) (spec_prompt ms) = Inr rq \<and>
               rq_prompt rq = spec_prompt ms"
    by (simp add: ollama_request_of_def split: option.splits)
  ultimately show ?thesis by blast
qed

theorem chat_prompt_well_formed_witness:
  "list_all2 is_message example_messages [(System, ''Be brief''), (User, ''hi'')] \<and>
   example_messages \<noteq> [] \<and> check_ollama_running example_chat_env \<and>
   map_of [(''messages'', JArr example_messages)] ''messages'' = Some (JArr example_messages) \<and>
   flatten_prompt example_chat_env (JArr example_messages) =
     Inr (''System: Be brief'' @ [CHR 0x0A] @ ''Human: hi'' @ [CHR 0x0A] @ ''Assistant: '') \<and>
   chat_completions example_chat_env (Inr (JObj [(''messages'', JArr example_messages)])) =
     call_ollama example_chat_env (JObj [(''messages'', JArr example_messages)])
       (''System: Be brief'' @ [CHR 0x0A] @ ''Human: hi'' @ [CHR 0x0A] @ ''Assistant: '')"
  using chat_prompt_well_formed [of example_messages "[(System, ''Be brief''), (User, ''hi'')]"
      example_chat_env "[(''messages'', JArr example_messages)]"]
  by (simp add: example_messages_def example_chat_env_def check_ollama_running_def
      spec_prompt_def spec_line_def)

subsection \<open>Messages without a role, or with another role\<close>










subsection \<open>The usage counts of a successful completion\<close>

lemma format_reply_200:
  assumes "format_reply env prompt reply = (200, body)"
  shows "\<exists>answer generated_text.
           status_code reply = 200 \<and> reply_json reply = Inr answer \<and>
           py_get answer ''response'' (JStr []) = Inr (JStr generated_text) \<and>
           body = CompletionBody
             \<lparr>choice_role = ''assistant'', choice_content = generated_text,
              finish_reason = ''stop'', completion_model = OLLAMA_MODEL env,
              prompt_tokens = word_count prompt,
              completion_tokens = word_count generated_text,
              total_tokens = word_count prompt + word_count generated_text\<rparr>"
  using assms
  by (auto simp: format_reply_def length_split split: if_splits sum.splits json.splits)

lemma call_ollama_200:
  assumes "call_ollama env data prompt = (200, body)"
  shows "\<exists>rq reply. ollama_request_of env data prompt = Inr rq \<and>
           generate_post env rq = Inr reply \<and> format_reply env prompt reply = (200, body)"
  using assms by (auto simp: call_ollama_def split: sum.splits)

lemma chat_completions_200:
  assumes "chat_completions env get_json = (200, body)"
  shows "\<exists>data messages prompt.
           get_json = Inr data \<and> py_get data ''messages'' (JArr []) = Inr messages \<and>
           flatten_prompt env messages = Inr prompt \<and>
           call_ollama env data prompt = (200, body)"
  using assms by (auto simp: chat_completions_def split: if_splits sum.splits)

text \<open>
  Claim C9. Every response of \<^verbatim>\<open>POST /chat/completions\<close> with status 200 carries one
  completion whose \<^verbatim>\<open>prompt_tokens\<close> is the number of whitespace-separated words of the
  flattened prompt, whose \<^verbatim>\<open>completion_tokens\<close> is the number of whitespace-separated words
  of the generated text, and whose \<^verbatim>\<open>total_tokens\<close> is their sum; its finish reason is
  \<^verbatim>\<open>stop\<close>, its role \<^verbatim>\<open>assistant\<close> and its content the generated text.
\<close>

theorem chat_usage_counts:
  assumes "chat_completions env get_json = (200, body)"
  shows "\<exists>data messages prompt rq reply answer generated_text c.
           get_json = Inr data \<and> py_get data ''messages'' (JArr []) = Inr messages \<and>
           flatten_prompt env messages = Inr prompt \<and>
           ollama_request_of env data prompt = Inr rq \<and>
           generate_post env rq = Inr reply \<and> reply_json reply = Inr answer \<and>
           py_get answer ''response'' (JStr []) = Inr (JStr generated_text) \<and>
           body = CompletionBody c \<and>
           prompt_tokens c = word_count prompt \<and>
           completion_tokens c = word_count generated_text \<and>
           total_tokens c = prompt_tokens c + completion_tokens c \<and>
           finish_reason c = ''stop'' \<and> choice_role c = ''assistant'' \<and>
           choice_content c = generated_text"
proof -
  from chat_completions_200 [OF assms] obtain data messages prompt where
    a: "get_json = Inr data" "py_get data ''messages'' (JArr []) = Inr messages"
       "flatten_prompt env messages = Inr prompt" "call_ollama env data prompt = (200, body)"
    by blast
  from call_ollama_200 [OF a(4)] obtain rq reply where
    b: "ollama_request_of env data prompt = Inr rq" "generate_post env rq = Inr reply"
       "format_reply env prompt reply = (200, body)"
    by blast
  from format_reply_200 [OF b(3)] obtain answer generated_text where
    c: "reply_json reply = Inr answer"
       "py_get answer ''response'' (JStr []) = Inr (JStr generated_text)"
       "body = CompletionBody
             \<lparr>choice_role = ''assistant'', choice_content = generated_text,
              finish_reason = ''stop'', completion_model = OLLAMA_MODEL env,
              prompt_tokens = word_count prompt,
              completion_tokens = word_count generated_text,
              total_tokens = word_count prompt + word_count generated_text\<rparr>"
    by blast
  show ?thesis
    using a(1,2,3) b(1,2) c by simp
qed

lemma example_chat_run:
  "chat_completions example_chat_env (Inr (JObj [(''messages'', JArr example_messages)])) =
     (200, CompletionBody example_completion)"
  by (simp add: chat_completions_def example_chat_env_def example_messages_def
      check_ollama_running_def flatten_prompt_def message_line_def format_value_def
      call_ollama_def ollama_request_of_def format_reply_def split_def isspace_def
      example_completion_def)

theorem chat_usage_counts_witness:
  "chat_completions example_chat_env (Inr (JObj [(''messages'', JArr example_messages)])) =
     (200, CompletionBody example_completion) \<and>
   (\<exists>prompt generated_text.
      flatten_prompt example_chat_env (JArr example_messages) = Inr prompt \<and>
      prompt_tokens example_completion = word_count prompt \<and>
      completion_tokens example_completion = word_count generated_text \<and>
      choice_content example_completion = generated_text \<and>
      total_tokens example_completion = 8)"
  using chat_usage_counts [OF example_chat_run] example_chat_run
  by (auto simp: example_completion_def)

section \<open>Verification of the embedding server\<close>

subsection \<open>Blank texts are the ones \<^verbatim>\<open>strip\<close> empties\<close>

lemma strip_Nil_iff: "strip t = [] \<longleftrightarrow> blank t"
proof
  assume "strip t = []"
  then have all: "\<forall>c \<in> set (dropWhile isspace t). isspace c"
    by (simp add: strip_def dropWhile_eq_Nil_conv)
  have "dropWhile isspace t = []"
  proof (rule ccontr)
    assume ne: "dropWhile isspace t \<noteq> []"
    then have "\<not> isspace (hd (dropWhile isspace t))" by (rule hd_dropWhile)
    moreover from ne have "hd (dropWhile isspace t) \<in> set (dropWhile isspace t)" by simp
    ultimately show False using all by blast
  qed
  then show "blank t" by (simp add: blank_def dropWhile_eq_Nil_conv list_all_iff)
next
  assume "blank t"
  then have d: "dropWhile isspace t = []"
    by (simp add: blank_def dropWhile_eq_Nil_conv list_all_iff)
  show "strip t = []" unfolding strip_def d by simp
qed

lemma valid_texts_strings:
  "valid_texts (map JStr ts) = Inr (filter (\<lambda>t. \<not> blank t) ts)"
proof (induction ts)
  case Nil
  then show ?case by simp
next
  case (Cons t ts)
  have "t = [] \<Longrightarrow> blank t" by (simp add: blank_def)
  with Cons show ?case by (auto simp: strip_Nil_iff)
qed

lemma length_survivors:
  "length (filter (\<lambda>t. \<not> blank t) ts) = length ts - length (filter blank ts)"
  using sum_length_filter_compl [of blank ts] by simp

lemma batch_texts:
  assumes "embedding_model env = Some encode" and "map_of kvs ''texts'' = Some texts"
  shows "create_batch_embeddings env (Inr (JObj kvs)) =
     (case texts of
        JArr xs \<Rightarrow>
          if xs = [] then (400, EmbErrorBody ''Invalid texts array'')
          else
            (case valid_texts xs of
               Inl e \<Rightarrow> (500, EmbFailureBody e)
             | Inr valid \<Rightarrow>
                 if valid = [] then (400, EmbErrorBody ''No valid texts provided'')
                 else
                   (case encode valid of
                      Inl e \<Rightarrow> (500, EmbFailureBody e)
                    | Inr vs \<Rightarrow>
                        (200, BatchBody
                           \<lparr>b_embeddings = vs, b_count = length vs,
                            b_dimensions = (case vs of [] \<Rightarrow> 0 | emb # rest \<Rightarrow> length emb),
                            b_model = MODEL_NAME env\<rparr>)))
      | _ \<Rightarrow> (400, EmbErrorBody ''Invalid texts array''))"
proof -
  from assms(2) have "kvs \<noteq> []" by auto
  with assms show ?thesis
    by (simp add: create_batch_embeddings_def split: json.splits sum.splits)
qed

text \<open>
  Claim C3. With the model loaded, a body whose \<^verbatim>\<open>texts\<close> is not a list is rejected with
  status 400. For a list of \<open>N\<close> texts of which \<open>k\<close> are empty or whitespace-only: when
  \<open>k = N\<close> (the empty list included) the call is rejected with status 400; otherwise, the
  encoder giving one vector for each text it receives, the response has status 200 and
  holds exactly \<open>N - k\<close> vectors, the encodings of the surviving texts in their input
  order, and its count is \<open>N - k\<close>.
\<close>

theorem batch_embeddings_survivors:
  assumes "embedding_model env = Some encode" and "map_of kvs ''texts'' = Some texts"
  shows "((\<forall>xs. texts \<noteq> JArr xs) \<longrightarrow> fst (create_batch_embeddings env (Inr (JObj kvs))) = 400) \<and>
         (texts = JArr (map JStr ts) \<longrightarrow>
            (length (filter blank ts) = length ts \<longrightarrow>
               fst (create_batch_embeddings env (Inr (JObj kvs))) = 400) \<and>
            (length (filter blank ts) \<noteq> length ts \<and>
             encode (filter (\<lambda>t. \<not> blank t) ts) = Inr (map enc (filter (\<lambda>t. \<not> blank t) ts)) \<longrightarrow>
               (\<exists>r. create_batch_embeddings env (Inr (JObj kvs)) = (200, BatchBody r) \<and>
                    b_embeddings r = map enc (filter (\<lambda>t. \<not> blank t) ts) \<and>
                    length (b_embeddings r) = length ts - length (filter blank ts) \<and>
                    b_count r = length ts - length (filter blank ts))))"
proof (intro conjI impI)
  assume "\<forall>xs. texts \<noteq> JArr xs"
  then show "fst (create_batch_embeddings env (Inr (JObj kvs))) = 400"
    by (cases texts) (simp_all add: batch_texts [OF assms])
next
  assume texts: "texts = JArr (map JStr ts)" and all: "length (filter blank ts) = length ts"
  from all have "filter (\<lambda>t. \<not> blank t) ts = []"
    using length_survivors [of ts] by simp
  with texts show "fst (create_batch_embeddings env (Inr (JObj kvs))) = 400"
    by (simp add: batch_texts [OF assms] valid_texts_strings)
next
  assume texts: "texts = JArr (map JStr ts)"
    and some: "length (filter blank ts) \<noteq> length ts \<and>
      encode (filter (\<lambda>t. \<not> blank t) ts) = Inr (map enc (filter (\<lambda>t. \<not> blank t) ts))"
  have "length (filter (\<lambda>t. \<not> blank t) ts) \<noteq> 0"
    using some length_survivors [of ts] length_filter_le [of blank ts] by arith
  then have ne: "filter (\<lambda>t. \<not> blank t) ts \<noteq> []" and "ts \<noteq> []" by auto
  with texts some show "\<exists>r. create_batch_embeddings env (Inr (JObj kvs)) = (200, BatchBody r) \<and>
       b_embeddings r = map enc (filter (\<lambda>t. \<not> blank t) ts) \<and>
       length (b_embeddings r) = length ts - length (filter blank ts) \<and>
       b_count r = length ts - length (filter blank ts)"
    by (simp add: batch_texts [OF assms] valid_texts_strings length_survivors)
qed

theorem batch_embeddings_survivors_witness:
  "embedding_model example_embedding_env = Some (\<lambda>ts. Inr (map (\<lambda>t. [real (length t), 1]) ts)) \<and>
   fst (create_batch_embeddings example_embedding_env (Inr (JObj [(''texts'', JStr ''abc'')]))) = 400 \<and>
   fst (create_batch_embeddings example_embedding_env
          (Inr (JObj [(''texts'', JArr (map JStr ['' '', []]))]))) = 400 \<and>
   (\<exists>r. create_batch_embeddings example_embedding_env
           (Inr (JObj [(''texts'', JArr (map JStr [''a'', '' '', ''bc'']))])) = (200, BatchBody r) \<and>
        b_embeddings r = [[1, 1], [2, 1]] \<and> b_count r = 2)"
proof -
  have m: "embedding_model example_embedding_env = Some (\<lambda>ts. Inr (map (\<lambda>t. [real (length t), 1]) ts))"
    by (simp add: example_embedding_env_def)
  have b: "blank '' ''" "blank []" "\<not> blank ''a''" "\<not> blank ''bc''"
    by (simp_all add: blank_def isspace_def)
  have k1: "map_of [(''texts'', JStr ''abc'')] ''texts'' = Some (JStr ''abc'')" by simp
  have k2: "map_of [(''texts'', JArr (map JStr ['' '', []]))] ''texts'' =
    Some (JArr (map JStr ['' '', []]))" by simp
  have k3: "map_of [(''texts'', JArr (map JStr [''a'', '' '', ''bc'']))] ''texts'' =
    Some (JArr (map JStr [''a'', '' '', ''bc'']))" by simp
  have "fst (create_batch_embeddings example_embedding_env (Inr (JObj [(''texts'', JStr ''abc'')]))) = 400"
    using batch_embeddings_survivors [OF m k1] by simp
  moreover have "fst (create_batch_embeddings example_embedding_env
          (Inr (JObj [(''texts'', JArr (map JStr ['' '', []]))]))) = 400"
    using batch_embeddings_survivors [OF m k2, of "['' '', []]"] b by simp
  moreover have "\<exists>r. create_batch_embeddings example_embedding_env
           (Inr (JObj [(''texts'', JArr (map JStr [''a'', '' '', ''bc'']))])) = (200, BatchBody r) \<and>
        b_embeddings r = [[1, 1], [2, 1]] \<and> b_count r = 2"
    using batch_embeddings_survivors [OF m k3, of "[''a'', '' '', ''bc'']" "\<lambda>t. [real (length t), 1]"] b
    by auto
  ultimately show ?thesis using m by blast
qed

subsection \<open>Cosine similarity\<close>

lemma np_dot_dot_product:
  assumes "length a = length b"
  shows "np_dot a b = Inr (dot_product a b)"
proof -
  have "sum_list (map (\<lambda>xy. fst xy * snd xy) (zip a b)) =
      (\<Sum>i = 0..<length (map (\<lambda>xy. fst xy * snd xy) (zip a b)).
          map (\<lambda>xy. fst xy * snd xy) (zip a b) ! i)"
    by (rule sum_list_sum_nth)
  also have "\<dots> = (\<Sum>i = 0..<length a. a ! i * b ! i)"
    using assms by (intro sum.cong) simp_all
  finally show ?thesis
    using assms by (simp add: np_dot_def dot_product_def atLeast0LessThan)
qed

lemma np_norm_euclidean: "np_norm a = euclidean_norm a"
proof -
  have "sum_list (map (\<lambda>x. \<bar>x\<bar> ^ 2) a) = (\<Sum>i = 0..<length (map (\<lambda>x. \<bar>x\<bar> ^ 2) a). map (\<lambda>x. \<bar>x\<bar> ^ 2) a ! i)"
    by (rule sum_list_sum_nth)
  also have "\<dots> = (\<Sum>i = 0..<length a. (a ! i)\<^sup>2)"
    by (intro sum.cong) simp_all
  finally show ?thesis
    by (simp add: np_norm_def euclidean_norm_def atLeast0LessThan)
qed

lemma euclidean_norm_zero_iff: "euclidean_norm v = 0 \<longleftrightarrow> (\<forall>x \<in> set v. x = 0)"
proof -
  have "(\<Sum>i<length v. (v ! i)\<^sup>2) = 0 \<longleftrightarrow> (\<forall>i \<in> {..<length v}. (v ! i)\<^sup>2 = 0)"
    by (rule sum_nonneg_eq_0_iff) simp_all
  also have "\<dots> \<longleftrightarrow> (\<forall>x \<in> set v. x = 0)"
    by (auto simp: set_conv_nth)
  finally show ?thesis by (simp add: euclidean_norm_def)
qed

lemma cosine_pair:
  assumes "length v1 = length v2"
  shows "cosine [v1, v2] =
     Inr (if euclidean_norm v1 * euclidean_norm v2 = 0 then NaN
          else Finite (dot_product v1 v2 / (euclidean_norm v1 * euclidean_norm v2)))"
  using assms
  by (simp add: cosine_def row_def np_dot_dot_product np_norm_euclidean np_divide_def)

lemma similarity_missing:
  assumes "embedding_model env = Some encode"
    and "map_of kvs ''text1'' = None \<or> map_of kvs ''text2'' = None"
  shows "compute_similarity env (Inr (JObj kvs)) = (400, EmbErrorBody ''Both text1 and text2 required'')"
  using assms by (auto simp: compute_similarity_def split: bool.splits)

lemma similarity_texts:
  assumes "embedding_model env = Some encode"
    and "map_of kvs ''text1'' = Some (JStr t1)" and "map_of kvs ''text2'' = Some (JStr t2)"
  shows "compute_similarity env (Inr (JObj kvs)) =
     (if blank t1 \<or> blank t2 then (400, EmbErrorBody ''Empty texts provided'')
      else
        (case encode [t1, t2] of
           Inl e \<Rightarrow> (500, EmbFailureBody e)
         | Inr embeddings \<Rightarrow>
             (case cosine embeddings of
                Inl e \<Rightarrow> (500, EmbFailureBody e)
              | Inr similarity \<Rightarrow>
                  (200, SimilarityBody \<lparr>s_similarity = similarity, s_model = MODEL_NAME env\<rparr>))))"
proof -
  from assms(2) have "kvs \<noteq> []" by auto
  with assms show ?thesis
    by (simp add: compute_similarity_def strip_Nil_iff)
qed

text \<open>
  Claim C5. With the model loaded, \<^verbatim>\<open>POST /similarity\<close> answers 400 when \<^verbatim>\<open>text1\<close> or
  \<^verbatim>\<open>text2\<close> is absent, and 400 when one of the two texts is empty after stripping
  whitespace. When both are present and not blank and the encoder gives the two vectors, the
  response has status 200 and its similarity is the dot product of the two vectors divided
  by the product of their Euclidean norms (not a number when that product is zero).
  Numbers are reals here, the idealisation of the library's floats.
\<close>

theorem similarity_is_cosine:
  assumes "embedding_model env = Some encode"
  shows "(map_of kvs ''text1'' = None \<or> map_of kvs ''text2'' = None \<longrightarrow>
            fst (compute_similarity env (Inr (JObj kvs))) = 400) \<and>
         (map_of kvs ''text1'' = Some (JStr t1) \<and> map_of kvs ''text2'' = Some (JStr t2) \<longrightarrow>
            (blank t1 \<or> blank t2 \<longrightarrow> fst (compute_similarity env (Inr (JObj kvs))) = 400) \<and>
            (\<not> blank t1 \<and> \<not> blank t2 \<and> encode [t1, t2] = Inr [v1, v2] \<and> length v1 = length v2 \<longrightarrow>
               compute_similarity env (Inr (JObj kvs)) =
                 (200, SimilarityBody
                    \<lparr>s_similarity =
                       (if euclidean_norm v1 * euclidean_norm v2 = 0 then NaN
                        else Finite (dot_product v1 v2 / (euclidean_norm v1 * euclidean_norm v2))),
                     s_model = MODEL_NAME env\<rparr>)))"
proof (intro conjI impI)
  assume "map_of kvs ''text1'' = None \<or> map_of kvs ''text2'' = None"
  then show "fst (compute_similarity env (Inr (JObj kvs))) = 400"
    by (simp add: similarity_missing [OF assms])
next
  assume "map_of kvs ''text1'' = Some (JStr t1) \<and> map_of kvs ''text2'' = Some (JStr t2)"
    and "blank t1 \<or> blank t2"
  then show "fst (compute_similarity env (Inr (JObj kvs))) = 400"
    by (simp add: similarity_texts [OF assms])
next
  assume k: "map_of kvs ''text1'' = Some (JStr t1) \<and> map_of kvs ''text2'' = Some (JStr t2)"
    and e: "\<not> blank t1 \<and> \<not> blank t2 \<and> encode [t1, t2] = Inr [v1, v2] \<and> length v1 = length v2"
  from k have k1: "map_of kvs ''text1'' = Some (JStr t1)" and k2: "map_of kvs ''text2'' = Some (JStr t2)"
    by simp_all
  from e have "cosine [v1, v2] =
     Inr (if euclidean_norm v1 * euclidean_norm v2 = 0 then NaN
          else Finite (dot_product v1 v2 / (euclidean_norm v1 * euclidean_norm v2)))"
    by (simp add: cosine_pair)
  with e show "compute_similarity env (Inr (JObj kvs)) =
                 (200, SimilarityBody
                    \<lparr>s_similarity =
                       (if euclidean_norm v1 * euclidean_norm v2 = 0 then NaN
                        else Finite (dot_product v1 v2 / (euclidean_norm v1 * euclidean_norm v2))),
                     s_model = MODEL_NAME env\<rparr>)"
    by (simp add: similarity_texts [OF assms k1 k2])
qed

theorem similarity_is_cosine_witness:
  "embedding_model example_embedding_env = Some (\<lambda>ts. Inr (map (\<lambda>t. [real (length t), 1]) ts)) \<and>
   fst (compute_similarity example_embedding_env (Inr (JObj [(''text1'', JStr ''cat'')]))) = 400 \<and>
   fst (compute_similarity example_embedding_env
          (Inr (JObj [(''text1'', JStr ''cat''), (''text2'', JStr '' '')]))) = 400 \<and>
   compute_similarity example_embedding_env
     (Inr (JObj [(''text1'', JStr ''cat''), (''text2'', JStr ''horse'')])) =
     (200, SimilarityBody
        \<lparr>s_similarity = Finite (dot_product [3, 1] [5, 1] / (euclidean_norm [3, 1] * euclidean_norm [5, 1])),
         s_model = ''all-MiniLM-L6-v2''\<rparr>)"
proof -
  have m: "embedding_model example_embedding_env = Some (\<lambda>ts. Inr (map (\<lambda>t. [real (length t), 1]) ts))"
    by (simp add: example_embedding_env_def)
  have b: "\<not> blank ''cat''" "\<not> blank ''horse''" "blank '' ''"
    by (simp_all add: blank_def isspace_def)
  have nz: "euclidean_norm [3, 1] * euclidean_norm [5, 1] \<noteq> 0"
    by (simp add: euclidean_norm_zero_iff)
  have "fst (compute_similarity example_embedding_env (Inr (JObj [(''text1'', JStr ''cat'')]))) = 400"
    using similarity_is_cosine [OF m, of "[(''text1'', JStr ''cat'')]"] by simp
  moreover have "fst (compute_similarity example_embedding_env
          (Inr (JObj [(''text1'', JStr ''cat''), (''text2'', JStr '' '')]))) = 400"
    using similarity_is_cosine [OF m, of "[(''text1'', JStr ''cat''), (''text2'', JStr '' '')]"
        "''cat''" "'' ''"] b
    by simp
  moreover have "compute_similarity example_embedding_env
     (Inr (JObj [(''text1'', JStr ''cat''), (''text2'', JStr ''horse'')])) =
     (200, SimilarityBody
        \<lparr>s_similarity = Finite (dot_product [3, 1] [5, 1] / (euclidean_norm [3, 1] * euclidean_norm [5, 1])),
         s_model = ''all-MiniLM-L6-v2''\<rparr>)"
    using similarity_is_cosine [OF m, of "[(''text1'', JStr ''cat''), (''text2'', JStr ''horse'')]"
        "''cat''" "''horse''" "[3, 1]" "[5, 1]"] b nz
    by (simp add: example_embedding_env_def)
  ultimately show ?thesis using m by blast
qed

section \<open>Verification of the transcription server\<close>

subsection \<open>Stripped text has no whitespace at either end\<close>

lemma strip_no_leading: "strip s \<noteq> [] \<Longrightarrow> \<not> isspace (hd (strip s))"
proof -
  assume ne: "strip s \<noteq> []"
  let ?u = "dropWhile isspace s"
  have "strip s @ rev (takeWhile isspace (rev ?u)) =
      rev (takeWhile isspace (rev ?u) @ dropWhile isspace (rev ?u))"
    by (simp only: strip_def rev_append)
  also have "\<dots> = rev (rev ?u)" by (simp only: takeWhile_dropWhile_id)
  finally have "?u = strip s @ rev (takeWhile isspace (rev ?u))" by simp
  then obtain w where u: "?u = strip s @ w" ..
  from ne u have "?u \<noteq> []" by (metis append_is_Nil_conv)
  then have "\<not> isspace (hd ?u)" by (rule hd_dropWhile)
  moreover from ne u have "hd ?u = hd (strip s)" by (metis hd_append2)
  ultimately show ?thesis by simp
qed

lemma strip_no_trailing: "strip s \<noteq> [] \<Longrightarrow> \<not> isspace (last (strip s))"
proof -
  assume ne: "strip s \<noteq> []"
  then have "dropWhile isspace (rev (dropWhile isspace s)) \<noteq> []"
    by (simp add: strip_def del: dropWhile_eq_Nil_conv)
  then have "\<not> isspace (hd (dropWhile isspace (rev (dropWhile isspace s))))"
    by (rule hd_dropWhile)
  moreover have "last (strip s) = hd (dropWhile isspace (rev (dropWhile isspace s)))"
    by (simp add: strip_def last_rev del: dropWhile_eq_Nil_conv)
  ultimately show ?thesis by simp
qed

lemma strip_strip: "strip (strip s) = strip s"
proof (cases "strip s = []")
  case True
  have "strip [] = []" by (simp add: strip_def)
  with True show ?thesis by simp
next
  case False
  have a: "dropWhile isspace (strip s) = strip s"
    using strip_no_leading [OF False] by (simp add: dropWhile_eq_self_iff)
  have "hd (rev (strip s)) = last (strip s)" using False by (simp add: hd_rev)
  then have b: "dropWhile isspace (rev (strip s)) = rev (strip s)"
    using strip_no_trailing [OF False] by (simp add: dropWhile_eq_self_iff)
  show ?thesis
    by (subst strip_def) (simp only: a b rev_rev_ident)
qed

subsection \<open>The shape of a transcription\<close>

lemma format_segments_stripped:
  "\<forall>s \<in> set (format_segments result). strip (seg_text s) = seg_text s"
  by (auto simp: format_segments_def strip_strip split: option.splits)

text \<open>
  Claim C8. Every successful call of \<^verbatim>\<open>transcribe_audio_file\<close> gives the full transcript
  text of the model's result, its language tag (\<^verbatim>\<open>unknown\<close> when the result has none) and
  a list of segments: one for each segment of the result, with the text stripped and the
  start and end kept, or, when the result has no key \<^verbatim>\<open>segments\<close>, exactly one segment
  whose text is the stripped full transcript and whose start and end are both 0. The text
  of every segment is stripped: stripping it again changes nothing.
\<close>

theorem transcription_result_shape:
  assumes "fst (transcribe_audio_file env file_path st) = Inr t"
  shows "\<exists>model result.
           whisper_model env = Some model \<and> model (files st file_path) = Inr result \<and>
           tr_text t = res_text result \<and>
           tr_language t = (case res_language result of None \<Rightarrow> ''unknown'' | Some l \<Rightarrow> l) \<and>
           (\<forall>segs. res_segments result = Some segs \<longrightarrow>
              tr_segments t =
                map (\<lambda>s. \<lparr>seg_text = strip (seg_text s), seg_start = seg_start s,
                           seg_end = seg_end s\<rparr>) segs) \<and>
           (res_segments result = None \<longrightarrow>
              tr_segments t =
                [\<lparr>seg_text = strip (res_text result), seg_start = 0, seg_end = 0\<rparr>]) \<and>
           (\<forall>s \<in> set (tr_segments t). strip (seg_text s) = seg_text s)"
proof (cases "whisper_model env")
  case None
  with assms show ?thesis by (simp add: transcribe_audio_file_def Let_def)
next
  case (Some model)
  show ?thesis
  proof (cases "model (files st file_path)")
    case (Inl e)
    with Some assms show ?thesis
      by (simp add: transcribe_audio_file_def Let_def logged_def)
  next
    case (Inr result)
    with Some assms have t: "t = \<lparr>tr_text = res_text result,
        tr_language = (case res_language result of None \<Rightarrow> ''unknown'' | Some l \<Rightarrow> l),
        tr_segments = format_segments result\<rparr>"
      by (simp add: transcribe_audio_file_def Let_def logged_def)
    have seg: "tr_segments t = format_segments result" by (simp add: t)
    have 1: "tr_text t = res_text result" by (simp add: t)
    have 2: "tr_language t = (case res_language result of None \<Rightarrow> ''unknown'' | Some l \<Rightarrow> l)"
      by (simp add: t)
    have 3: "\<forall>segs. res_segments result = Some segs \<longrightarrow>
              tr_segments t =
                map (\<lambda>s. \<lparr>seg_text = strip (seg_text s), seg_start = seg_start s,
                           seg_end = seg_end s\<rparr>) segs"
      by (simp add: seg format_segments_def)
    have 4: "res_segments result = None \<longrightarrow>
              tr_segments t =
                [\<lparr>seg_text = strip (res_text result), seg_start = 0, seg_end = 0\<rparr>]"
      by (simp add: seg format_segments_def)
    have 5: "\<forall>s \<in> set (tr_segments t). strip (seg_text s) = seg_text s"
      unfolding seg by (rule format_segments_stripped)
    show ?thesis by (intro exI [of _ model] exI [of _ result] conjI Some Inr 1 2 3 4 5)
  qed
qed

lemma example_transcribe_audio_file:
  "fst (transcribe_audio_file example_whisper_env ''/tmp/tmp1.mp3''
          \<lparr>files = [''/tmp/tmp1.mp3'' \<mapsto> ''RIFF''], logs = []\<rparr>) = Inr example_transcription"
  by (simp add: transcribe_audio_file_def example_whisper_env_def example_transcription_def
      logged_def format_segments_def strip_def isspace_def Let_def)

theorem transcription_result_shape_witness:
  "fst (transcribe_audio_file example_whisper_env ''/tmp/tmp1.mp3''
          \<lparr>files = [''/tmp/tmp1.mp3'' \<mapsto> ''RIFF''], logs = []\<rparr>) = Inr example_transcription \<and>
   (\<exists>result :: whisper_result. tr_text example_transcription = res_text result \<and>
      tr_language example_transcription =
        (case res_language result of None \<Rightarrow> ''unknown'' | Some l \<Rightarrow> l) \<and>
      (res_segments result = None \<longrightarrow>
         tr_segments example_transcription =
           [\<lparr>seg_text = strip (res_text result), seg_start = 0, seg_end = 0\<rparr>]))"
proof -
  let ?shape = "\<lambda>model result.
      whisper_model example_whisper_env = Some model \<and>
      model (files \<lparr>files = [''/tmp/tmp1.mp3'' \<mapsto> ''RIFF''], logs = []\<rparr> ''/tmp/tmp1.mp3'') =
        Inr result \<and>
      tr_text example_transcription = res_text result \<and>
      tr_language example_transcription =
        (case res_language result of None \<Rightarrow> ''unknown'' | Some l \<Rightarrow> l) \<and>
      (\<forall>segs. res_segments result = Some segs \<longrightarrow>
         tr_segments example_transcription =
           map (\<lambda>s. \<lparr>seg_text = strip (seg_text s), seg_start = seg_start s,
                      seg_end = seg_end s\<rparr>) segs) \<and>
      (res_segments result = None \<longrightarrow>
         tr_segments example_transcription =
           [\<lparr>seg_text = strip (res_text result), seg_start = 0, seg_end = 0\<rparr>]) \<and>
      (\<forall>s \<in> set (tr_segments example_transcription). strip (seg_text s) = seg_text s)"
  have "\<exists>model result. ?shape model result"
    by (rule transcription_result_shape [OF example_transcribe_audio_file])
  then obtain model where "\<exists>result. ?shape model result" ..
  then obtain result where c: "?shape model result" ..
  note r = c [THEN conjunct2, THEN conjunct2, THEN conjunct1]
    c [THEN conjunct2, THEN conjunct2, THEN conjunct2, THEN conjunct1]
    c [THEN conjunct2, THEN conjunct2, THEN conjunct2, THEN conjunct2, THEN conjunct2, THEN conjunct1]
  show ?thesis
    by (rule conjI [OF example_transcribe_audio_file]) (rule exI [of _ result], intro conjI r)
qed

subsection \<open>Requests without an audio source\<close>

lemma cleanup_None: "cleanup env None st = (Inr (), st)"
  by (simp add: cleanup_def)

lemma transcribe_audio_file_http_get:
  "transcribe_audio_file (env\<lparr>http_get := fetch\<rparr>) file_path st = transcribe_audio_file env file_path st"
  by (simp add: transcribe_audio_file_def)

lemma cleanup_http_get: "cleanup (env\<lparr>http_get := fetch\<rparr>) temp_file_path st = cleanup env temp_file_path st"
  by (simp add: cleanup_def split: option.splits)

lemma whisper_model_http_get: "whisper_model (env\<lparr>http_get := fetch\<rparr>) = whisper_model env"
  by simp

lemma transcribe_source_http_get:
  "transcribe_source (env\<lparr>http_get := fetch\<rparr>) temp_file_path st = transcribe_source env temp_file_path st"
  by (simp only: transcribe_source_def transcribe_audio_file_http_get cleanup_http_get
      whisper_model_http_get)

lemma transcribe_try_upload:
  assumes "req_files request ''audio_file'' = Some uploaded_file"
  shows "transcribe_try env request st =
     (case named_temporary_file env st of
        (Inl e, st1) \<Rightarrow> (Inl e, None, st1)
      | (Inr name, st1) \<Rightarrow>
          (case uploaded_file of
             Inl e \<Rightarrow> (Inl e, None, st1)
           | Inr content \<Rightarrow>
               transcribe_source env name (st1\<lparr>files := (files st1)(name \<mapsto> content)\<rparr>)))"
  using assms by (simp add: transcribe_try_def)

lemma named_temporary_file_http_get:
  "named_temporary_file (env\<lparr>http_get := fetch\<rparr>) st = named_temporary_file env st"
  by (simp add: named_temporary_file_def)

text \<open>
  Claim C7, as amended. Every request to \<^verbatim>\<open>POST /transcribe\<close> that has no multipart field
  \<^verbatim>\<open>audio_file\<close> and either is not sent as JSON (its content type is not JSON, so that
  \<^verbatim>\<open>request.is_json\<close> is false), or has a JSON body that parses to a falsy value (null,
  false, zero, or an empty string, array or object) or to a JSON object, array or string in
  which \<^verbatim>\<open>audio_url\<close> does not occur, is rejected with status 400 and the error body, whatever
  the environment and with the state unchanged: no file is created, nothing is fetched and
  the model is not called. When the field \<^verbatim>\<open>audio_file\<close> is present the outcome does not
  depend on the JSON body or on the HTTP fetch: the uploaded file takes priority over the
  URL.
\<close>

theorem transcribe_without_source:
  "(req_files request ''audio_file'' = None \<and>
      (\<not> is_json request \<or>
       (\<exists>body. req_json request = Inr body \<and>
          (\<not> truthy body \<or> py_in ''audio_url'' body = Inr False))) \<longrightarrow>
      transcribe env request st =
        (Inr (400, WErrorBody ''No audio_url or audio_file provided''), st)) \<and>
   (req_files request ''audio_file'' \<noteq> None \<longrightarrow>
      transcribe env request st =
        transcribe (env\<lparr>http_get := fetch\<rparr>) (request\<lparr>is_json := b, req_json := j\<rparr>) st)"
proof (intro conjI impI)
  assume a: "req_files request ''audio_file'' = None \<and>
      (\<not> is_json request \<or>
       (\<exists>body. req_json request = Inr body \<and>
          (\<not> truthy body \<or> py_in ''audio_url'' body = Inr False)))"
  then have "transcribe_try env request st =
      (Inr (400, WErrorBody ''No audio_url or audio_file provided''), None, st)"
    by (auto simp: transcribe_try_def)
  then show "transcribe env request st =
        (Inr (400, WErrorBody ''No audio_url or audio_file provided''), st)"
    by (simp add: transcribe_def)
next
  assume "req_files request ''audio_file'' \<noteq> None"
  then obtain uploaded_file where u: "req_files request ''audio_file'' = Some uploaded_file"
    by blast
  then have u': "req_files (request\<lparr>is_json := b, req_json := j\<rparr>) ''audio_file'' = Some uploaded_file"
    by simp
  have "transcribe_try (env\<lparr>http_get := fetch\<rparr>) (request\<lparr>is_json := b, req_json := j\<rparr>) st =
      transcribe_try env request st"
    by (simp only: transcribe_try_upload [OF u] transcribe_try_upload [OF u']
        named_temporary_file_http_get transcribe_source_http_get)
  then show "transcribe env request st =
        transcribe (env\<lparr>http_get := fetch\<rparr>) (request\<lparr>is_json := b, req_json := j\<rparr>) st"
    by (simp only: transcribe_def cleanup_http_get)
qed

theorem transcribe_without_source_witness:
  "transcribe example_whisper_env
     \<lparr>req_files = Map.empty, is_json = True, req_json = Inr (JObj [(''url'', JStr ''x'')])\<rparr>
     example_state =
     (Inr (400, WErrorBody ''No audio_url or audio_file provided''), example_state) \<and>
   transcribe example_whisper_env example_upload example_state =
     transcribe example_whisper_env
       (example_upload\<lparr>is_json := True,
          req_json := Inr (JObj [(''audio_url'', JStr ''http://host/a.mp3'')])\<rparr>)
       example_state"
proof -
  have "transcribe example_whisper_env
     \<lparr>req_files = Map.empty, is_json = True, req_json = Inr (JObj [(''url'', JStr ''x'')])\<rparr>
     example_state =
     (Inr (400, WErrorBody ''No audio_url or audio_file provided''), example_state)"
    using transcribe_without_source [where
        request = "\<lparr>req_files = Map.empty, is_json = True, req_json = Inr (JObj [(''url'', JStr ''x'')])\<rparr>"
        and env = example_whisper_env and st = example_state]
    by simp
  moreover have "transcribe example_whisper_env example_upload example_state =
     transcribe example_whisper_env
       (example_upload\<lparr>is_json := True,
          req_json := Inr (JObj [(''audio_url'', JStr ''http://host/a.mp3'')])\<rparr>)
       example_state"
    using transcribe_without_source [where request = example_upload
        and env = example_whisper_env and st = example_state
        and fetch = "http_get example_whisper_env" and b = True
        and j = "Inr (JObj [(''audio_url'', JStr ''http://host/a.mp3'')])"]
    by (simp add: example_upload_def)
  ultimately show ?thesis by blast
qed

text \<open>
  Claim C7 as stated, for every request with neither source, fails on two requests sent as
  JSON without an upload. On a body that is a number, \<^verbatim>\<open>'audio_url' in request.json\<close>
  raises a TypeError. On a body that does not parse, \<^verbatim>\<open>request.json\<close> itself raises. The
  handler turns both into status 500.
\<close>

theorem transcribe_json_body_500:
  "req_files (example_url_request\<lparr>req_json := Inr (JNum 5)\<rparr>) ''audio_file'' = None \<and>
   transcribe example_whisper_env (example_url_request\<lparr>req_json := Inr (JNum 5)\<rparr>) example_state =
     (Inr (500, WFailureBody TypeError),
      \<lparr>files = Map.empty, logs = [RequestFailed TypeError]\<rparr>) \<and>
   req_files (example_url_request\<lparr>req_json := Inl (LibraryError ''BadRequest'')\<rparr>) ''audio_file'' = None \<and>
   transcribe example_whisper_env
     (example_url_request\<lparr>req_json := Inl (LibraryError ''BadRequest'')\<rparr>) example_state =
     (Inr (500, WFailureBody (LibraryError ''BadRequest'')),
      \<lparr>files = Map.empty, logs = [RequestFailed (LibraryError ''BadRequest'')]\<rparr>)"
  by (simp add: transcribe_def transcribe_try_def cleanup_def logged_def
      example_url_request_def example_state_def)

subsection \<open>A fetch that ends in an error status\<close>

lemma download_error_status:
  assumes "http_get env url = Inr response"
    and "400 \<le> http_status response" and "http_status response < 600"
  shows "download_audio_file env url st =
     (Inl (HTTPError (http_status response)),
      logged (DownloadFailed (HTTPError (http_status response))) (logged (DownloadingFrom url) st))"
  using assms by (simp add: download_audio_file_def raise_for_status_def Let_def)

text \<open>
  Claim C4, as amended. For every request to \<^verbatim>\<open>POST /transcribe\<close> with an
  \<^verbatim>\<open>audio_url\<close> whose fetch
  returns an error status (a client or server error, 400 to 599, on which
  \<^verbatim>\<open>raise_for_status\<close> raises), the response has status 500 and the files afterwards are
  the files before: the exception is raised before a temporary file is created, and the
  handler's \<^verbatim>\<open>temp_file_path\<close> is still unset.
\<close>

theorem transcribe_fetch_error_status:
  assumes "req_files request ''audio_file'' = None" and "is_json request"
    and "req_json request = Inr (JObj kvs)" and "map_of kvs ''audio_url'' = Some url"
    and "http_get env url = Inr response"
    and "400 \<le> http_status response" and "http_status response < 600"
  shows "fst (transcribe env request st) =
           Inr (500, WFailureBody (HTTPError (http_status response))) \<and>
         files (snd (transcribe env request st)) = files st \<and>
         fst (snd (transcribe_try env request st)) = None"
proof -
  from assms(4) have "kvs \<noteq> []" by auto
  with assms(1-4) have "transcribe_try env request st =
      (Inl (HTTPError (http_status response)), None,
       logged (DownloadFailed (HTTPError (http_status response))) (logged (DownloadingFrom url) st))"
    by (simp add: transcribe_try_def download_error_status [OF assms(5-7)])
  then show ?thesis
    by (simp add: transcribe_def cleanup_None logged_def)
qed

theorem transcribe_fetch_error_status_witness:
  "req_files example_url_request ''audio_file'' = None \<and> is_json example_url_request \<and>
   fst (transcribe example_whisper_env example_url_request example_state) =
     Inr (500, WFailureBody (HTTPError 404)) \<and>
   files (snd (transcribe example_whisper_env example_url_request example_state)) =
     files example_state"
  using transcribe_fetch_error_status [where request = example_url_request
      and kvs = "[(''audio_url'', JStr ''http://host/a.mp3'')]" and url = "JStr ''http://host/a.mp3''"
      and env = example_whisper_env
      and response = "\<lparr>http_status = 404, http_chunks = [], http_failure = None\<rparr>"
      and st = example_state]
  by (simp add: example_url_request_def example_whisper_env_def)

text \<open>
  Claim C4 as stated, for every non-success status, fails on the status 304, which is not
  a success and on which \<^verbatim>\<open>raise_for_status\<close> does not raise: the download writes a
  temporary file, and the handler answers 200 when the model transcribes it. With the model
  not loaded it answers 500 and the file stays.
\<close>

theorem transcribe_fetch_304:
  "download_audio_file
     (example_whisper_env
        \<lparr>http_get := \<lambda>url. Inr \<lparr>http_status = 304, http_chunks = [], http_failure = None\<rparr>\<rparr>)
     (JStr ''http://host/a.mp3'') example_state =
     (Inr ''/tmp/tmp1.mp3'',
      \<lparr>files = [''/tmp/tmp1.mp3'' \<mapsto> []],
       logs = [DownloadingFrom (JStr ''http://host/a.mp3''), DownloadedTo ''/tmp/tmp1.mp3'']\<rparr>) \<and>
   transcribe
     (example_whisper_env
        \<lparr>http_get := \<lambda>url. Inr \<lparr>http_status = 304, http_chunks = [], http_failure = None\<rparr>\<rparr>)
     example_url_request example_state =
     (Inr (200, WSuccessBody example_transcription),
      \<lparr>files = Map.empty,
       logs = [DownloadingFrom (JStr ''http://host/a.mp3''), DownloadedTo ''/tmp/tmp1.mp3'',
               TranscribingFile ''/tmp/tmp1.mp3'', TranscriptionCompleted 1]\<rparr>) \<and>
   transcribe
     (example_whisper_env
        \<lparr>whisper_model := None,
         http_get := \<lambda>url. Inr \<lparr>http_status = 304, http_chunks = [], http_failure = None\<rparr>\<rparr>)
     example_url_request example_state =
     (Inr (500, WErrorBody ''Whisper model not loaded''),
      \<lparr>files = [''/tmp/tmp1.mp3'' \<mapsto> []],
       logs = [DownloadingFrom (JStr ''http://host/a.mp3''), DownloadedTo ''/tmp/tmp1.mp3'']\<rparr>)"
  by (simp add: transcribe_def transcribe_try_def transcribe_source_def transcribe_audio_file_def
      download_audio_file_def raise_for_status_def
      named_temporary_file_def cleanup_def logged_def format_segments_def strip_def isspace_def
      example_whisper_env_def example_url_request_def example_state_def example_transcription_def
      Let_def)

subsection \<open>The temporary file is removed\<close>

lemma transcribe_audio_file_loaded:
  assumes "whisper_model env = Some model"
  shows "transcribe_audio_file env p st =
     (case model (files st p) of
        Inl e \<Rightarrow> (Inl e, logged (TranscriptionFailed e) (logged (TranscribingFile p) st))
      | Inr result \<Rightarrow>
          (Inr \<lparr>tr_text = res_text result,
                tr_language = (case res_language result of None \<Rightarrow> ''unknown'' | Some l \<Rightarrow> l),
                tr_segments = format_segments result\<rparr>,
           logged (TranscriptionCompleted (length (format_segments result)))
             (logged (TranscribingFile p) st)))"
  using assms by (simp add: transcribe_audio_file_def Let_def logged_def split: sum.splits)

lemma files_logged: "files (logged ev st) = files st"
  by (simp add: logged_def)

lemma cleanup_existing:
  assumes "p \<noteq> []" and "files st p = Some c" and "unlink_error env p = None"
  shows "cleanup env (Some p) st = (Inr (), st\<lparr>files := (files st)(p := None)\<rparr>)"
  using assms by (simp add: cleanup_def)

lemma transcribe_source_loaded:
  assumes "whisper_model env = Some model" and "p \<noteq> []" and "files st p = Some c"
    and "unlink_error env p = None"
  shows "transcribe_source env p st =
     (case model (Some c) of
        Inl e \<Rightarrow> (Inl e, Some p, logged (TranscriptionFailed e) (logged (TranscribingFile p) st))
      | Inr result \<Rightarrow>
          (Inr (200, WSuccessBody
                  \<lparr>tr_text = res_text result,
                   tr_language = (case res_language result of None \<Rightarrow> ''unknown'' | Some l \<Rightarrow> l),
                   tr_segments = format_segments result\<rparr>),
           Some p,
           (logged (TranscriptionCompleted (length (format_segments result)))
              (logged (TranscribingFile p) st))\<lparr>files := (files st)(p := None)\<rparr>))"
proof (cases "model (Some c)")
  case (Inl e)
  with assms show ?thesis
    by (simp add: transcribe_source_def transcribe_audio_file_loaded [OF assms(1)])
next
  case (Inr result)
  let ?st1 = "logged (TranscriptionCompleted (length (format_segments result)))
             (logged (TranscribingFile p) st)"
  have "files ?st1 p = Some c" using assms(3) by (simp add: files_logged)
  from cleanup_existing [OF assms(2) this assms(4)]
  have "cleanup env (Some p) ?st1 = (Inr (), ?st1\<lparr>files := (files st)(p := None)\<rparr>)"
    by (simp add: files_logged)
  with Inr assms show ?thesis
    by (simp add: transcribe_source_def transcribe_audio_file_loaded [OF assms(1)])
qed

lemma transcribe_of_source:
  assumes "transcribe_try env request st = transcribe_source env p st1"
    and "whisper_model env = Some model" and "p \<noteq> []" and "files st1 p = Some c"
    and "unlink_error env p = None"
  shows "files (snd (transcribe env request st)) = (files st1)(p := None) \<and>
         ((\<exists>t. fst (transcribe env request st) = Inr (200, WSuccessBody t)) \<or>
          (\<exists>e. fst (transcribe env request st) = Inr (500, WFailureBody e)))"
proof (cases "model (Some c)")
  case (Inl e)
  let ?st2 = "logged (TranscriptionFailed e) (logged (TranscribingFile p) st1)"
  have tried: "transcribe_try env request st = (Inl e, Some p, ?st2)"
    using Inl by (simp add: assms(1) transcribe_source_loaded [OF assms(2-5)])
  have "files ?st2 p = Some c" using assms(4) by (simp add: files_logged)
  from cleanup_existing [OF assms(3) this assms(5)]
  have "cleanup env (Some p) ?st2 = (Inr (), ?st2\<lparr>files := (files st1)(p := None)\<rparr>)"
    by (simp add: files_logged)
  then have "transcribe env request st =
      (Inr (500, WFailureBody e), logged (RequestFailed e) (?st2\<lparr>files := (files st1)(p := None)\<rparr>))"
    by (simp add: transcribe_def tried)
  then show ?thesis by (simp add: files_logged)
next
  case (Inr result)
  then show ?thesis
    by (simp add: transcribe_def assms(1) transcribe_source_loaded [OF assms(2-5)])
qed

lemma download_completed:
  assumes "http_get env url = Inr response"
    and "\<not> (400 \<le> http_status response \<and> http_status response < 600)"
    and "http_failure response = None" and "new_temp_file env = Inr p"
  shows "download_audio_file env url st =
     (Inr p, logged (DownloadedTo p)
               ((logged (DownloadingFrom url) st)
                  \<lparr>files := (files st)(p \<mapsto> concat (http_chunks response))\<rparr>))"
  using assms
  by (simp add: download_audio_file_def raise_for_status_def named_temporary_file_def Let_def
      logged_def)

text \<open>
  Claim C1, as amended. For every request to \<^verbatim>\<open>POST /transcribe\<close> whose temporary file is
  stored (the upload saved, or the download of the URL completed), with the model loaded
  and the deletion not failing, the temporary file is deleted before the handler returns,
  both when the transcription succeeds (status 200) and when it fails (status 500): the
  files afterwards are the files before.
\<close>

theorem transcribe_removes_temp_file:
  assumes "whisper_model env = Some model"
    and "new_temp_file env = Inr p" and "p \<noteq> []" and "files st p = None"
    and "unlink_error env p = None"
    and "req_files request ''audio_file'' = Some (Inr content) \<or>
         (req_files request ''audio_file'' = None \<and> is_json request \<and>
          req_json request = Inr (JObj kvs) \<and> map_of kvs ''audio_url'' = Some url \<and>
          http_get env url = Inr response \<and>
          \<not> (400 \<le> http_status response \<and> http_status response < 600) \<and>
          http_failure response = None)"
  shows "files (snd (transcribe env request st)) = files st \<and>
         ((\<exists>t. fst (transcribe env request st) = Inr (200, WSuccessBody t)) \<or>
          (\<exists>e. fst (transcribe env request st) = Inr (500, WFailureBody e)))"
proof -
  have gone: "(files st)(p := None) = files st"
    using assms(4) by (simp add: fun_upd_idem)
  from assms(6) show ?thesis
  proof
    assume u: "req_files request ''audio_file'' = Some (Inr content)"
    let ?st1 = "st\<lparr>files := (files st)(p \<mapsto> content)\<rparr>"
    have tried: "transcribe_try env request st = transcribe_source env p ?st1"
      using u assms(2) by (simp add: transcribe_try_def named_temporary_file_def)
    have f: "files ?st1 p = Some content" by simp
    from transcribe_of_source [OF tried assms(1,3) f assms(5)] show ?thesis
      by (simp add: gone)
  next
    assume "req_files request ''audio_file'' = None \<and> is_json request \<and>
          req_json request = Inr (JObj kvs) \<and> map_of kvs ''audio_url'' = Some url \<and>
          http_get env url = Inr response \<and>
          \<not> (400 \<le> http_status response \<and> http_status response < 600) \<and>
          http_failure response = None"
    then have
      r: "req_files request ''audio_file'' = None" "is_json request"
         "req_json request = Inr (JObj kvs)" "map_of kvs ''audio_url'' = Some url"
      and d: "http_get env url = Inr response"
         "\<not> (400 \<le> http_status response \<and> http_status response < 600)"
         "http_failure response = None"
      by simp_all
    let ?st1 = "logged (DownloadedTo p)
               ((logged (DownloadingFrom url) st)
                  \<lparr>files := (files st)(p \<mapsto> concat (http_chunks response))\<rparr>)"
    from r(4) have "kvs \<noteq> []" by auto
    with r have tried: "transcribe_try env request st = transcribe_source env p ?st1"
      by (simp add: transcribe_try_def download_completed [OF d assms(2)])
    have f: "files ?st1 p = Some (concat (http_chunks response))" by (simp add: files_logged)
    from transcribe_of_source [OF tried assms(1,3) f assms(5)] show ?thesis
      by (simp add: files_logged gone)
  qed
qed

theorem transcribe_removes_temp_file_witness:
  "req_files example_upload ''audio_file'' = Some (Inr ''RIFF'') \<and>
   files (snd (transcribe example_whisper_env example_upload example_state)) = files example_state \<and>
   ((\<exists>t. fst (transcribe example_whisper_env example_upload example_state) =
           Inr (200, WSuccessBody t)) \<or>
    (\<exists>e. fst (transcribe example_whisper_env example_upload example_state) =
           Inr (500, WFailureBody e))) \<and>
   files (snd (transcribe
                 (example_whisper_env
                    \<lparr>http_get := \<lambda>url. Inr \<lparr>http_status = 200, http_chunks = [''RI'', ''FF''],
                                             http_failure = None\<rparr>\<rparr>)
                 example_url_request example_state)) = files example_state"
proof -
  let ?model = "\<lambda>audio. case audio of
                None \<Rightarrow> Inl (LibraryError ''No such file'')
              | Some (bytes :: string) \<Rightarrow>
                  Inr \<lparr>res_text = '' hello world'', res_segments = None,
                       res_language = Some ''en''\<rparr>"
  let ?fetch = "\<lambda>url :: json. Inr \<lparr>http_status = 200, http_chunks = [''RI'', ''FF''],
      http_failure = None\<rparr> :: py_exn + http_response"
  have u: "req_files example_upload ''audio_file'' = Some (Inr ''RIFF'')"
    by (simp add: example_upload_def)
  have e: "whisper_model example_whisper_env = Some ?model"
      "new_temp_file example_whisper_env = Inr ''/tmp/tmp1.mp3''"
      "''/tmp/tmp1.mp3'' \<noteq> []" "files example_state ''/tmp/tmp1.mp3'' = None"
      "unlink_error example_whisper_env ''/tmp/tmp1.mp3'' = None"
    by (simp_all add: example_whisper_env_def example_state_def)
  have e': "whisper_model (example_whisper_env\<lparr>http_get := ?fetch\<rparr>) = Some ?model"
      "new_temp_file (example_whisper_env\<lparr>http_get := ?fetch\<rparr>) = Inr ''/tmp/tmp1.mp3''"
      "unlink_error (example_whisper_env\<lparr>http_get := ?fetch\<rparr>) ''/tmp/tmp1.mp3'' = None"
    by (simp_all add: example_whisper_env_def)
  have b: "req_files example_url_request ''audio_file'' = Some (Inr []) \<or>
      (req_files example_url_request ''audio_file'' = None \<and> is_json example_url_request \<and>
      req_json example_url_request = Inr (JObj [(''audio_url'', JStr ''http://host/a.mp3'')]) \<and>
      map_of [(''audio_url'', JStr ''http://host/a.mp3'')] ''audio_url'' = Some (JStr ''http://host/a.mp3'') \<and>
      http_get (example_whisper_env\<lparr>http_get := ?fetch\<rparr>) (JStr ''http://host/a.mp3'') =
        Inr \<lparr>http_status = 200, http_chunks = [''RI'', ''FF''], http_failure = None\<rparr> \<and>
      \<not> (400 \<le> http_status \<lparr>http_status = 200, http_chunks = [''RI'', ''FF''], http_failure = None\<rparr> \<and>
         http_status \<lparr>http_status = 200, http_chunks = [''RI'', ''FF''], http_failure = None\<rparr> < 600) \<and>
      http_failure \<lparr>http_status = 200, http_chunks = [''RI'', ''FF''], http_failure = None\<rparr> = None)"
    by (simp add: example_url_request_def)
  from transcribe_removes_temp_file [OF e disjI1 [OF u]]
    transcribe_removes_temp_file [OF e'(1,2) e(3,4) e'(3) b] u
  show ?thesis by simp
qed

text \<open>
  Claim C1 as stated fails in four ways. A deletion that fails is not contained: the
  exception leaves the handler instead of the response, and the file stays. With the
  model not loaded the handler returns status 500 before any clean-up, and the file stays.
  A download that breaks off after the file was created, and an upload whose \<^verbatim>\<open>save\<close>
  fails, leave the file too: \<^verbatim>\<open>temp_file_path\<close> is set only once the file is complete.
\<close>

theorem temp_file_left_behind:
  "transcribe (example_whisper_env\<lparr>unlink_error := \<lambda>p. Some (LibraryError ''PermissionError'')\<rparr>)
     example_upload example_state =
     (Inl (LibraryError ''PermissionError''),
      \<lparr>files = [''/tmp/tmp1.mp3'' \<mapsto> ''RIFF''],
       logs = [TranscribingFile ''/tmp/tmp1.mp3'', TranscriptionCompleted 1]\<rparr>) \<and>
   transcribe (example_whisper_env\<lparr>whisper_model := None\<rparr>) example_upload example_state =
     (Inr (500, WErrorBody ''Whisper model not loaded''),
      \<lparr>files = [''/tmp/tmp1.mp3'' \<mapsto> ''RIFF''], logs = []\<rparr>) \<and>
   transcribe
     (example_whisper_env
        \<lparr>http_get := \<lambda>url. Inr \<lparr>http_status = 200, http_chunks = [''RI''],
                                 http_failure = Some (LibraryError ''ConnectionError'')\<rparr>\<rparr>)
     example_url_request example_state =
     (Inr (500, WFailureBody (LibraryError ''ConnectionError'')),
      \<lparr>files = [''/tmp/tmp1.mp3'' \<mapsto> ''RI''],
       logs = [DownloadingFrom (JStr ''http://host/a.mp3''),
               DownloadFailed (LibraryError ''ConnectionError''),
               RequestFailed (LibraryError ''ConnectionError'')]\<rparr>) \<and>
   transcribe example_whisper_env
     (example_upload\<lparr>req_files := [''audio_file'' \<mapsto> Inl (LibraryError ''OSError'')]\<rparr>)
     example_state =
     (Inr (500, WFailureBody (LibraryError ''OSError'')),
      \<lparr>files = [''/tmp/tmp1.mp3'' \<mapsto> []], logs = [RequestFailed (LibraryError ''OSError'')]\<rparr>)"
  by (simp add: transcribe_def transcribe_try_def transcribe_source_def transcribe_audio_file_def
      download_audio_file_def raise_for_status_def
      named_temporary_file_def cleanup_def logged_def format_segments_def
      example_whisper_env_def example_upload_def example_url_request_def example_state_def Let_def)

text \<open>The last two in general.\<close>

lemma transcribe_interrupted_download:
  assumes "req_files request ''audio_file'' = None" and "is_json request"
    and "req_json request = Inr (JObj kvs)" and "map_of kvs ''audio_url'' = Some url"
    and "http_get env url = Inr response"
    and "\<not> (400 \<le> http_status response \<and> http_status response < 600)"
    and "http_failure response = Some e" and "new_temp_file env = Inr p"
  shows "fst (transcribe env request st) = Inr (500, WFailureBody e) \<and>
         files (snd (transcribe env request st)) p = Some (concat (http_chunks response))"
proof -
  have "download_audio_file env url st =
     (Inl e, logged (DownloadFailed e)
               ((logged (DownloadingFrom url) st)
                  \<lparr>files := (files st)(p \<mapsto> concat (http_chunks response))\<rparr>))"
    using assms(5-8)
    by (auto simp: download_audio_file_def raise_for_status_def named_temporary_file_def Let_def
        logged_def)
  moreover from assms(4) have "kvs \<noteq> []" by auto
  ultimately have "transcribe_try env request st =
     (Inl e, None, logged (DownloadFailed e)
               ((logged (DownloadingFrom url) st)
                  \<lparr>files := (files st)(p \<mapsto> concat (http_chunks response))\<rparr>))"
    using assms(1-4) by (simp add: transcribe_try_def)
  then show ?thesis
    by (simp add: transcribe_def cleanup_def files_logged)
qed

lemma transcribe_failed_save:
  assumes "req_files request ''audio_file'' = Some (Inl e)" and "new_temp_file env = Inr p"
  shows "fst (transcribe env request st) = Inr (500, WFailureBody e) \<and>
         files (snd (transcribe env request st)) p = Some []"
proof -
  have "transcribe_try env request st = (Inl e, None, st\<lparr>files := (files st)(p \<mapsto> [])\<rparr>)"
    using assms by (simp add: transcribe_try_def named_temporary_file_def)
  then show ?thesis
    by (simp add: transcribe_def cleanup_def files_logged)
qed

end
